theory Spec2Isabelle
  imports Main "HOL-Library.Word" "HOL-Library.AList" "HOL-Library.Multiset"
    "HOL-Library.Product_Lexorder"
begin

section \<open>Data model\<close>

text \<open>
  Go strings and byte slices are both sequences of bytes; an Isabelle \<open>char\<close> is a
  byte, so both are modelled as \<open>string\<close> and the conversion \<open>[]byte(s)\<close> is the
  identity. A Go \<open>map[string]T\<close> is an association list: \<open>map_of\<close> is the lookup,
  the order of the list is the (unspecified) order in which \<open>range\<close> visits the keys, and
  a theorem about every list is a theorem about every iteration order. \<open>int32\<close> and
  \<open>int64\<close> are words read as two's complement by \<open>sint\<close>; a nil pointer is \<open>None\<close>.
\<close>

type_synonym bytes = string
type_synonym int32 = "32 word"
type_synonym int64 = "64 word"
type_synonym uint64 = "64 word"
type_synonym ('k, 'v) gomap = "('k \<times> 'v) list"

record packageFile =
  data :: bytes
  mode :: int32

record KeyToPath =
  Key :: string
  Path :: string
  Mode :: "int32 option"

record ConfigMapVolumeSource =
  cmv_Name :: string
  cmv_Items :: "KeyToPath list"
  cmv_DefaultMode :: "int32 option"
  cmv_Optional :: "bool option"

record SecretVolumeSource =
  sv_SecretName :: string
  sv_Items :: "KeyToPath list"
  sv_DefaultMode :: "int32 option"
  sv_Optional :: "bool option"

record ConfigMap =
  cm_Namespace :: string
  cm_Name :: string
  cm_Data :: "(string, string) gomap"
  cm_BinaryData :: "(string, bytes) gomap"

record Secret =
  sec_Namespace :: string
  sec_Name :: string
  sec_Data :: "(string, bytes) gomap"

text \<open>
  A volume of the pod: the \<open>ConfigMap\<close> and \<open>Secret\<close> pointers of the embedded
  \<open>VolumeSource\<close> (the other sources are not looked at by the functions below).
\<close>

record Volume =
  vol_Name :: string
  vol_ConfigMap :: "ConfigMapVolumeSource option"
  vol_Secret :: "SecretVolumeSource option"

record Pod =
  pod_Name :: string
  pod_Namespace :: string
  pod_Volumes :: "Volume list"

record DNSConfig =
  Servers :: "string list"
  Searches :: "string list"
  Options :: "string list"

record tar_Header =
  hdr_Name :: string
  hdr_Mode :: int64
  hdr_Size :: int
  hdr_Typeflag :: "8 word"
  hdr_Uid :: int
  hdr_Gid :: int

text \<open>
  The state of an \<open>archive/tar\<close> writer: the entries written so far (header and the bytes
  written under it) and the number of bytes the current entry still expects.
\<close>

record tar_Writer =
  tw_entries :: "(tar_Header \<times> bytes) list"
  tw_nb :: int

record Image =
  img_Id :: string
  img_Name :: string

record BootImageTags =
  Company :: string
  Product :: string
  Version :: string
  Date :: string
  Time :: string

text \<open>
  The cloud-init types: a file of \<open>write_files\<close>, and the cloud config, of which the code
  reads and writes \<open>WriteFiles\<close> only (\<open>cc_other\<close> stands for every other field).
\<close>

record cc_File =
  wf_Content :: string
  wf_Path :: string
  wf_Owner :: string
  wf_RawFilePermissions :: string

record 'a CloudConfig =
  WriteFiles :: "cc_File list"
  cc_other :: 'a

record 'a File =
  userData :: "'a CloudConfig"
  kipFiles :: "(string, cc_File) gomap"

text \<open>The buffer that \<open>makeDeployPackage\<close> returns: the gzip compression of a tar stream.\<close>

datatype buffer = GzipTar "(tar_Header \<times> bytes) list"

datatype error =
    NonExistentKey string string string string
      \<comment> \<open>volume, namespace, name, key: "volume %s items %s/%s references non-existent config key: %s"\<close>
  | ErrHeader
  | ErrWriteTooLong
  | ErrMissedWriting
  | NotFound
  | OtherError string
  | WrapError error string
  | NoDNSConfigurer
  | ErrSyntax
  | ErrRange
  | ErrTimeParse
  | NoImage BootImageTags
  | CloudInitTooLong

text \<open>
  The external resource manager, the errors of which \<open>errors.IsNotFound\<close> tells apart, and
  a call of the cell agent's \<open>Deploy\<close>: pod name, volume name, payload.
\<close>

record ResourceManager =
  GetConfigMap :: "string \<Rightarrow> string \<Rightarrow> error + ConfigMap"
  GetSecret :: "string \<Rightarrow> string \<Rightarrow> error + Secret"

type_synonym deploy_call = "string \<times> string \<times> buffer"

text \<open>A \<open>time.Time\<close>: the nanoseconds since the Unix epoch.\<close>

type_synonym time_Time = int

section \<open>Library functions\<close>

text \<open>\<open>strings.Join\<close>.\<close>

fun strings_Join :: "string list \<Rightarrow> string \<Rightarrow> string" where
  "strings_Join [] sep = []"
| "strings_Join [x] sep = x"
| "strings_Join (x # y # ys) sep = x @ sep @ strings_Join (y # ys) sep"

text \<open>
  \<open>strings.Split\<close> with a separator of one byte: the pieces between the separators, one
  piece (the empty string) for the empty string.
\<close>

fun strings_Split :: "string \<Rightarrow> char \<Rightarrow> string list" where
  "strings_Split [] sep = [[]]"
| "strings_Split (c # cs) sep =
     (if c = sep then [] # strings_Split cs sep
      else (case strings_Split cs sep of
              [] \<Rightarrow> [[c]]
            | t # ts \<Rightarrow> (c # t) # ts))"

text \<open>
  \<open>filepath.Clean\<close> on a system whose separator is \<open>/\<close>, as the library documents it:
  empty elements and \<open>.\<close> elements are dropped, an inner \<open>..\<close> removes the element
  before it, a \<open>..\<close> that would climb over the root is dropped, a leading \<open>..\<close> of a
  path that is not rooted stays, and the empty result is \<open>.\<close>. \<open>out\<close> is the list of
  elements written so far.
\<close>

fun clean_elems :: "bool \<Rightarrow> string list \<Rightarrow> string list \<Rightarrow> string list" where
  "clean_elems rooted [] out = out"
| "clean_elems rooted (e # es) out =
     (if e = [] \<or> e = ''.'' then clean_elems rooted es out
      else if e = ''..'' then
        (if out \<noteq> [] \<and> last out \<noteq> ''..'' then clean_elems rooted es (butlast out)
         else if \<not> rooted then clean_elems rooted es (out @ [''..''])
         else clean_elems rooted es out)
      else clean_elems rooted es (out @ [e]))"

definition filepath_Clean :: "string \<Rightarrow> string" where
  "filepath_Clean path =
     (if path = [] then ''.''
      else let rooted = (hd path = CHR ''/'');
               out = clean_elems rooted (strings_Split path (CHR ''/'')) []
           in if rooted then ''/'' @ strings_Join out ''/''
              else if out = [] then ''.'' else strings_Join out ''/'')"

text \<open>
  \<open>filepath.Join\<close>: the elements from the first non-empty one on, joined by \<open>/\<close> and
  cleaned; the empty string when every element is empty.
\<close>

definition filepath_Join :: "string list \<Rightarrow> string" where
  "filepath_Join elem =
     (case dropWhile (\<lambda>e. e = []) elem of
        [] \<Rightarrow> []
      | es \<Rightarrow> filepath_Clean (strings_Join es ''/''))"

text \<open>
  The \<open>archive/tar\<close> writer. \<open>WriteHeader\<close> refuses a header while the entry before it
  still expects bytes, and a header that none of the tar formats can encode; which
  headers those are is the library's business and is the parameter \<open>encodable\<close>.
  \<open>Write\<close> refuses more bytes than the header announced; \<open>Close\<close> refuses to end an
  archive whose last entry is short.
\<close>

definition tar_TypeReg :: "8 word" where
  "tar_TypeReg = 0x30"

definition tar_NewWriter :: tar_Writer where
  "tar_NewWriter = \<lparr>tw_entries = [], tw_nb = 0\<rparr>"

definition tar_WriteHeader ::
    "(tar_Header \<Rightarrow> bool) \<Rightarrow> tar_Header \<Rightarrow> tar_Writer \<Rightarrow> error + tar_Writer" where
  "tar_WriteHeader encodable hdr tw =
     (if tw_nb tw > 0 then Inl ErrMissedWriting
      else if \<not> encodable hdr then Inl ErrHeader
      else Inr \<lparr>tw_entries = tw_entries tw @ [(hdr, [])], tw_nb = hdr_Size hdr\<rparr>)"

definition tar_Write :: "bytes \<Rightarrow> tar_Writer \<Rightarrow> error + tar_Writer" where
  "tar_Write b tw =
     (if int (length b) > tw_nb tw then Inl ErrWriteTooLong
      else Inr \<lparr>tw_entries =
                  (case rev (tw_entries tw) of
                     [] \<Rightarrow> []
                   | (h, d) # es \<Rightarrow> rev es @ [(h, d @ b)]),
                tw_nb = tw_nb tw - int (length b)\<rparr>)"

definition tar_Close :: "tar_Writer \<Rightarrow> error option" where
  "tar_Close tw = (if tw_nb tw > 0 then Some ErrMissedWriting else None)"

text \<open>
  \<open>strconv.ParseUint(s, base, bitSize)\<close> for a base of at most 10: the loop of the library
  over the bytes of \<open>s\<close>. A byte that is no digit of the base is a syntax error with the
  value 0; a value that does not fit \<open>bitSize\<close> bits is a range error with the largest
  value of that size.
\<close>

fun parseUintLoop :: "uint64 \<Rightarrow> uint64 \<Rightarrow> uint64 \<Rightarrow> uint64 \<Rightarrow> string \<Rightarrow> uint64 \<times> error option"
where
  "parseUintLoop base cutoff maxVal n [] = (n, None)"
| "parseUintLoop base cutoff maxVal n (c # cs) =
     (if \<not> (of_char (CHR ''0'') \<le> (of_char c :: nat) \<and> (of_char c :: nat) \<le> of_char (CHR ''9''))
      then (0, Some ErrSyntax)
      else
        (let d = (of_nat (of_char c - of_char (CHR ''0'')) :: uint64) in
         if d \<ge> base then (0, Some ErrSyntax)
         else if n \<ge> cutoff then (maxVal, Some ErrRange)
         else
           (let n' = n * base;
                n1 = n' + d
            in if n1 < n' \<or> n1 > maxVal then (maxVal, Some ErrRange)
               else parseUintLoop base cutoff maxVal n1 cs)))"

definition strconv_ParseUint :: "string \<Rightarrow> nat \<Rightarrow> nat \<Rightarrow> uint64 \<times> error option" where
  "strconv_ParseUint s base bitSize =
     (if s = [] then (0, Some ErrSyntax)
      else parseUintLoop (of_nat base) ((- 1) div of_nat base + 1) (2 ^ bitSize - 1) 0 s)"

text \<open>\<open>time.Unix(sec, nsec)\<close> and \<open>Time.Before\<close>.\<close>

definition time_Unix :: "int \<Rightarrow> int \<Rightarrow> time_Time" where
  "time_Unix sec nsec = sec * 1000000000 + nsec"

definition Before :: "time_Time \<Rightarrow> time_Time \<Rightarrow> bool" where
  "Before t u = (t < u)"

text \<open>
  \<open>errors.IsNotFound\<close>: whether the error of the resource manager says that the object
  does not exist.
\<close>

definition errors_IsNotFound :: "error \<Rightarrow> bool" where
  "errors_IsNotFound err = (err = NotFound)"

text \<open>
  An instance of \<open>time.Parse\<close> for the layout of \<open>Timestamp\<close>, on which the examples
  run: a value of eight digits, a space and six digits, with the month, the day of the
  month, the hour, the minute and the second in range, is the time of that date in UTC;
  every other value, and every other layout, is refused. (The library is more lenient,
  with a fraction of a second after the seconds for one; the functions below take the
  parser as a parameter, and what is proved of them is proved for every parser.)
\<close>

definition isDigit :: "char \<Rightarrow> bool" where
  "isDigit c = (of_char (CHR ''0'') \<le> (of_char c :: nat) \<and> (of_char c :: nat) \<le> of_char (CHR ''9''))"

definition atoi :: "string \<Rightarrow> int" where
  "atoi s = foldl (\<lambda>n c. 10 * n + (int (of_char c) - int (of_char (CHR ''0'')))) 0 s"

definition isLeap :: "int \<Rightarrow> bool" where
  "isLeap year = (year mod 4 = 0 \<and> (year mod 100 \<noteq> 0 \<or> year mod 400 = 0))"

definition daysIn :: "int \<Rightarrow> int \<Rightarrow> int" where
  "daysIn month year =
     (if month = 2 then (if isLeap year then 29 else 28)
      else if month = 4 \<or> month = 6 \<or> month = 9 \<or> month = 11 then 30
      else 31)"

definition daysSinceEpoch :: "int \<Rightarrow> int \<Rightarrow> int \<Rightarrow> int" where
  "daysSinceEpoch year month day =
     365 * year + (year + 3) div 4 - (year + 99) div 100 + (year + 399) div 400
     + (\<Sum>m \<leftarrow> [1..<nat month]. daysIn (int m) year) + (day - 1) - 719528"

definition parseCompactTime :: "string \<Rightarrow> string \<Rightarrow> error + time_Time" where
  "parseCompactTime layout v =
     (if layout \<noteq> ''20060102 150405'' then Inl ErrTimeParse
      else if length v \<noteq> 15 \<or> \<not> list_all isDigit (take 8 v) \<or> v ! 8 \<noteq> CHR '' ''
              \<or> \<not> list_all isDigit (drop 9 v) then Inl ErrTimeParse
      else
        (let year = atoi (take 4 v);
             month = atoi (take 2 (drop 4 v));
             day = atoi (take 2 (drop 6 v));
             hour = atoi (take 2 (drop 9 v));
             minute = atoi (take 2 (drop 11 v));
             second = atoi (take 2 (drop 13 v))
         in if month < 1 \<or> 12 < month \<or> day < 1 \<or> daysIn month year < day
               \<or> 24 \<le> hour \<or> 60 \<le> minute \<or> 60 \<le> second then Inl ErrTimeParse
            else Inr (time_Unix (daysSinceEpoch year month day * 86400
                                 + hour * 3600 + minute * 60 + second) 0)))"

text \<open>
  An instance of \<open>sort.Slice\<close>, on which the examples run: insertion sort.
\<close>

fun insertSorted :: "('a \<Rightarrow> 'a \<Rightarrow> bool) \<Rightarrow> 'a \<Rightarrow> 'a list \<Rightarrow> 'a list" where
  "insertSorted lt x [] = [x]"
| "insertSorted lt x (y # ys) =
     (if lt x y then x # y # ys else y # insertSorted lt x ys)"

definition insertionSort :: "('a \<Rightarrow> 'a \<Rightarrow> bool) \<Rightarrow> 'a list \<Rightarrow> 'a list" where
  "insertionSort lt xs = foldr (insertSorted lt) xs []"

text \<open>
  \<open>bytes.Buffer.WriteString\<close> appends the string; the error it returns is always nil.
\<close>

definition buf_WriteString :: "bytes \<Rightarrow> string \<Rightarrow> bytes \<times> error option" where
  "buf_WriteString buf s = (buf @ s, None)"

section \<open>Package server: deploy packages\<close>

definition defaultVolumeFileMode :: int32 where
  "defaultVolumeFileMode = 6 * 64 + 4 * 8 + 4"  \<comment> \<open>\<open>int32(0644)\<close>, octal\<close>

text \<open>The header that the loop of \<open>makeDeployPackage\<close> writes for an entry of \<open>contents\<close>.\<close>

definition packageHeader :: "string \<Rightarrow> packageFile \<Rightarrow> tar_Header" where
  "packageHeader path file =
     (let tarFilepath = filepath_Join [''.'', ''ROOTFS'', path]
      in \<lparr>hdr_Name = tarFilepath,
          hdr_Mode = scast (mode file),
          hdr_Size = int (length (data file)),
          hdr_Typeflag = tar_TypeReg,
          hdr_Uid = 0,
          hdr_Gid = 0\<rparr>)"

text \<open>The loop of \<open>makeDeployPackage\<close> over the entries of \<open>contents\<close>.\<close>

fun writePackageFiles ::
    "(tar_Header \<Rightarrow> bool) \<Rightarrow> (string, packageFile) gomap \<Rightarrow> tar_Writer \<Rightarrow> error + tar_Writer"
where
  "writePackageFiles encodable [] tw = Inr tw"
| "writePackageFiles encodable ((path, file) # rest) tw =
     (let hdr = packageHeader path file
      in case tar_WriteHeader encodable hdr tw of
           Inl err \<Rightarrow> Inl err
         | Inr tw1 \<Rightarrow>
             (case tar_Write (data file) tw1 of
                Inl err \<Rightarrow> Inl err
              | Inr tw2 \<Rightarrow> writePackageFiles encodable rest tw2))"

definition makeDeployPackage ::
    "(tar_Header \<Rightarrow> bool) \<Rightarrow> (string, packageFile) gomap \<Rightarrow> error + buffer" where
  "makeDeployPackage encodable contents =
     (case writePackageFiles encodable contents tar_NewWriter of
        Inl err \<Rightarrow> Inl err
      | Inr tw \<Rightarrow>
          (case tar_Close tw of
             Some err \<Rightarrow> Inl err
           | None \<Rightarrow> Inr (GzipTar (tw_entries tw))))"

text \<open>
  The bytes that the loop of \<open>getConfigMapFiles\<close> finds under a key: the string of
  \<open>Data\<close> when the key is there, else the bytes of \<open>BinaryData\<close>, else nothing.
\<close>

definition configMapData :: "ConfigMap \<Rightarrow> string \<Rightarrow> bytes option" where
  "configMapData cm key =
     (case map_of (cm_Data cm) key of
        Some stringData \<Rightarrow> Some stringData
      | None \<Rightarrow>
          (case map_of (cm_BinaryData cm) key of
             Some binaryData \<Rightarrow> Some binaryData
           | None \<Rightarrow> None))"

text \<open>
  The loop of \<open>getConfigMapFiles\<close> over the items; \<open>packageItems\<close> is the map built so
  far, and \<open>packageItems[archivePath] = ...\<close> is \<open>AList.update\<close>.
\<close>

fun configMapItems ::
    "ConfigMapVolumeSource \<Rightarrow> ConfigMap \<Rightarrow> int32 \<Rightarrow> bool \<Rightarrow> KeyToPath list \<Rightarrow>
     (string, packageFile) gomap \<Rightarrow> error + (string, packageFile) gomap" where
  "configMapItems cmVol cm defaultMode optional [] packageItems = Inr packageItems"
| "configMapItems cmVol cm defaultMode optional (item # items) packageItems =
     (case configMapData cm (Key item) of
        None \<Rightarrow>
          (if optional then configMapItems cmVol cm defaultMode optional items packageItems
           else Inl (NonExistentKey (cmv_Name cmVol) (cm_Namespace cm) (cm_Name cm) (Key item)))
      | Some bs \<Rightarrow>
          (let mode = (case Mode item of Some m \<Rightarrow> m | None \<Rightarrow> defaultMode);
               archivePath = (if Path item \<noteq> [] then Path item else Key item)
           in configMapItems cmVol cm defaultMode optional items
                (AList.update archivePath \<lparr>data = bs, mode = mode\<rparr> packageItems)))"

definition getConfigMapFiles ::
    "ConfigMapVolumeSource \<Rightarrow> ConfigMap \<Rightarrow> error + (string, packageFile) gomap" where
  "getConfigMapFiles cmVol cm =
     (let defaultMode = (case cmv_DefaultMode cmVol of
                           Some m \<Rightarrow> m
                         | None \<Rightarrow> defaultVolumeFileMode);
          optional = (case cmv_Optional cmVol of Some b \<Rightarrow> b | None \<Rightarrow> False);
          items = (if length (cmv_Items cmVol) = 0
                   then map (\<lambda>k. \<lparr>Key = k, Path = [], Mode = None\<rparr>) (map fst (cm_Data cm))
                        @ map (\<lambda>k. \<lparr>Key = k, Path = [], Mode = None\<rparr>)
                            (map fst (cm_BinaryData cm))
                   else cmv_Items cmVol)
      in configMapItems cmVol cm defaultMode optional items [])"

fun secretItems ::
    "SecretVolumeSource \<Rightarrow> Secret \<Rightarrow> int32 \<Rightarrow> bool \<Rightarrow> KeyToPath list \<Rightarrow>
     (string, packageFile) gomap \<Rightarrow> error + (string, packageFile) gomap" where
  "secretItems secVol sec defaultMode optional [] packageItems = Inr packageItems"
| "secretItems secVol sec defaultMode optional (item # items) packageItems =
     (case map_of (sec_Data sec) (Key item) of
        None \<Rightarrow>
          (if optional then secretItems secVol sec defaultMode optional items packageItems
           else Inl (NonExistentKey (sv_SecretName secVol) (sec_Namespace sec) (sec_Name sec)
                       (Key item)))
      | Some binaryData \<Rightarrow>
          (let mode = (case Mode item of Some m \<Rightarrow> m | None \<Rightarrow> defaultMode);
               archivePath = (if Path item \<noteq> [] then Path item else Key item)
           in secretItems secVol sec defaultMode optional items
                (AList.update archivePath \<lparr>data = binaryData, mode = mode\<rparr> packageItems)))"

definition getSecretFiles ::
    "SecretVolumeSource \<Rightarrow> Secret \<Rightarrow> error + (string, packageFile) gomap" where
  "getSecretFiles secVol sec =
     (let defaultMode = (case sv_DefaultMode secVol of
                           Some m \<Rightarrow> m
                         | None \<Rightarrow> defaultVolumeFileMode);
          optional = (case sv_Optional secVol of Some b \<Rightarrow> b | None \<Rightarrow> False);
          items = (if length (sv_Items secVol) = 0
                   then map (\<lambda>k. \<lparr>Key = k, Path = [], Mode = None\<rparr>) (map fst (sec_Data sec))
                   else sv_Items secVol)
      in secretItems secVol sec defaultMode optional items [])"

section \<open>Package server: resolv.conf\<close>

fun writeServers :: "string \<Rightarrow> string list \<Rightarrow> bytes \<Rightarrow> error + bytes" where
  "writeServers podName [] buf = Inr buf"
| "writeServers podName (srv # srvs) buf =
     (case buf_WriteString buf (''nameserver '' @ srv @ [CHR 0x0A]) of
        (buf', Some err) \<Rightarrow> Inl (WrapError err (''creating DNS config for pod '' @ podName))
      | (buf', None) \<Rightarrow> writeServers podName srvs buf')"

definition createResolvconf :: "string \<Rightarrow> DNSConfig \<Rightarrow> error + bytes" where
  "createResolvconf podName dnsconf =
     (case writeServers podName (Servers dnsconf) [] of
        Inl err \<Rightarrow> Inl err
      | Inr buf1 \<Rightarrow>
          (let search = strings_Join (Searches dnsconf) '' '' in
           case (if length (Searches dnsconf) > 0
                 then buf_WriteString buf1 (''search '' @ search @ [CHR 0x0A])
                 else (buf1, None)) of
             (buf2, Some err) \<Rightarrow> Inl (WrapError err (''creating DNS config for pod '' @ podName))
           | (buf2, None) \<Rightarrow>
               (let options = strings_Join (Options dnsconf) '' '' in
                case (if length (Options dnsconf) > 0
                      then buf_WriteString buf2 (''options '' @ options @ [CHR 0x0A])
                      else (buf2, None)) of
                  (buf3, Some err) \<Rightarrow>
                    Inl (WrapError err (''creating DNS config for pod '' @ podName))
                | (buf3, None) \<Rightarrow> Inr buf3)))"

text \<open>Modelled from the spec: the constant \<open>resolvconfVolumeName\<close>, the reserved volume
  name \<open>resolvconf\<close>; its declaration is not in the source given.\<close>

definition resolvconfVolumeName :: string where
  "resolvconfVolumeName = ''resolvconf''"

text \<open>
  \<open>deployResolvconf\<close>. The conversion \<open>milpaToK8sPod\<close>, the DNS configurer's
  \<open>GetPodDNS\<close> (\<open>None\<close> is the nil configurer) and the client's \<open>Deploy\<close> are
  parameters; \<open>calls\<close> is the list of the \<open>Deploy\<close> calls made so far, returned
  extended.
\<close>

definition deployResolvconf ::
    "(tar_Header \<Rightarrow> bool) \<Rightarrow> (string \<Rightarrow> string \<Rightarrow> buffer \<Rightarrow> error option) \<Rightarrow>
     (Pod \<Rightarrow> error + 'k) \<Rightarrow> ('k \<Rightarrow> error + DNSConfig) option \<Rightarrow> Pod \<Rightarrow>
     deploy_call list \<Rightarrow> deploy_call list \<times> error option" where
  "deployResolvconf encodable Deploy milpaToK8sPod dnsConfigurer pod calls =
     (case dnsConfigurer of
        None \<Rightarrow> (calls, Some NoDNSConfigurer)
      | Some GetPodDNS \<Rightarrow>
          (case milpaToK8sPod pod of
             Inl err \<Rightarrow> (calls, Some (WrapError err ''converting pod to generate DNS config''))
           | Inr k8spod \<Rightarrow>
               (case GetPodDNS k8spod of
                  Inl err \<Rightarrow> (calls, Some (WrapError err ''creating pod DNS config''))
                | Inr dnsconf \<Rightarrow>
                    (case createResolvconf (pod_Name pod) dnsconf of
                       Inl err \<Rightarrow> (calls, Some (WrapError err ''creating pod resolv.conf''))
                     | Inr bs \<Rightarrow>
                         (case makeDeployPackage encodable
                                 [(''/etc/resolv.conf'',
                                   \<lparr>data = bs, mode = 6 * 64 + 4 * 8 + 4\<rparr>)] of
                            Inl err \<Rightarrow>
                              (calls, Some (WrapError err ''creating pod resolv.conf package''))
                          | Inr payload \<Rightarrow>
                              (case Deploy (pod_Name pod) resolvconfVolumeName payload of
                                 Some err \<Rightarrow>
                                   (calls @ [(pod_Name pod, resolvconfVolumeName, payload)],
                                    Some (WrapError err
                                      (''error deploying resolv.conf package to '' @ pod_Name pod)))
                               | None \<Rightarrow>
                                   (calls @ [(pod_Name pod, resolvconfVolumeName, payload)],
                                    None)))))))"

section \<open>Package server: pod volumes\<close>

text \<open>
  The end of both branches of \<open>deployPodVolumes\<close>: the package is built and handed to
  the client's \<open>Deploy\<close>.
\<close>

definition deployPackageFiles ::
    "(tar_Header \<Rightarrow> bool) \<Rightarrow> (string \<Rightarrow> string \<Rightarrow> buffer \<Rightarrow> error option) \<Rightarrow> Pod \<Rightarrow> Volume \<Rightarrow>
     (string, packageFile) gomap \<Rightarrow> deploy_call list \<Rightarrow> deploy_call list \<times> error option" where
  "deployPackageFiles encodable Deploy pod vol packageFiles calls =
     (case makeDeployPackage encodable packageFiles of
        Inl err \<Rightarrow>
          (calls, Some (WrapError err
             (''error creating tar.gz package '' @ vol_Name vol @ '' for '' @ pod_Name pod)))
      | Inr payload \<Rightarrow>
          (case Deploy (pod_Name pod) (vol_Name vol) payload of
             Some err \<Rightarrow>
               (calls @ [(pod_Name pod, vol_Name vol, payload)],
                Some (WrapError err
                  (''error deploying package '' @ vol_Name vol @ '' to '' @ pod_Name pod)))
           | None \<Rightarrow> (calls @ [(pod_Name pod, vol_Name vol, payload)], None)))"

text \<open>The fetch of the configmap of a volume, with the empty object of an optional source.\<close>

definition fetchConfigMap ::
    "ResourceManager \<Rightarrow> Pod \<Rightarrow> ConfigMapVolumeSource \<Rightarrow> error + ConfigMap" where
  "fetchConfigMap rm pod cmVol =
     (let optional = (case cmv_Optional cmVol of Some b \<Rightarrow> b | None \<Rightarrow> False) in
      case GetConfigMap rm (cmv_Name cmVol) (pod_Namespace pod) of
        Inl err \<Rightarrow>
          (if \<not> (errors_IsNotFound err \<and> optional)
           then Inl (WrapError err
                  (''Couldn't get configMap '' @ pod_Namespace pod @ ''/'' @ cmv_Name cmVol))
           else Inr \<lparr>cm_Namespace = pod_Namespace pod, cm_Name = cmv_Name cmVol,
                      cm_Data = [], cm_BinaryData = []\<rparr>)
      | Inr configMap \<Rightarrow> Inr configMap)"

definition fetchSecret :: "ResourceManager \<Rightarrow> Pod \<Rightarrow> SecretVolumeSource \<Rightarrow> error + Secret" where
  "fetchSecret rm pod secVol =
     (let optional = (case sv_Optional secVol of Some b \<Rightarrow> b | None \<Rightarrow> False) in
      case GetSecret rm (sv_SecretName secVol) (pod_Namespace pod) of
        Inl err \<Rightarrow>
          (if \<not> (errors_IsNotFound err \<and> optional)
           then Inl (WrapError err
                  (''Couldn't get secret '' @ pod_Namespace pod @ ''/'' @ sv_SecretName secVol))
           else Inr \<lparr>sec_Namespace = pod_Namespace pod, sec_Name = sv_SecretName secVol,
                      sec_Data = []\<rparr>)
      | Inr secret \<Rightarrow> Inr secret)"

text \<open>The loop of \<open>deployPodVolumes\<close> over the volumes of the pod.\<close>

fun deployVolumes ::
    "(tar_Header \<Rightarrow> bool) \<Rightarrow> (string \<Rightarrow> string \<Rightarrow> buffer \<Rightarrow> error option) \<Rightarrow> ResourceManager \<Rightarrow>
     Pod \<Rightarrow> Volume list \<Rightarrow> deploy_call list \<Rightarrow> deploy_call list \<times> error option" where
  "deployVolumes encodable Deploy rm pod [] calls = (calls, None)"
| "deployVolumes encodable Deploy rm pod (vol # vols) calls =
     (case vol_ConfigMap vol of
        Some cmVol \<Rightarrow>
          (case fetchConfigMap rm pod cmVol of
             Inl err \<Rightarrow> (calls, Some err)
           | Inr configMap \<Rightarrow>
               (case getConfigMapFiles cmVol configMap of
                  Inl err \<Rightarrow>
                    (calls, Some (WrapError err
                       (''couldn't get configMap payload '' @ pod_Namespace pod @ ''/''
                          @ cmv_Name cmVol)))
                | Inr packageFiles \<Rightarrow>
                    (case deployPackageFiles encodable Deploy pod vol packageFiles calls of
                       (calls', Some err) \<Rightarrow> (calls', Some err)
                     | (calls', None) \<Rightarrow> deployVolumes encodable Deploy rm pod vols calls')))
      | None \<Rightarrow>
          (case vol_Secret vol of
             Some secVol \<Rightarrow>
               (case fetchSecret rm pod secVol of
                  Inl err \<Rightarrow> (calls, Some err)
                | Inr secret \<Rightarrow>
                    (case getSecretFiles secVol secret of
                       Inl err \<Rightarrow>
                         (calls, Some (WrapError err
                            (''couldn't get secret payload '' @ pod_Namespace pod @ ''/''
                               @ sv_SecretName secVol)))
                     | Inr packageFiles \<Rightarrow>
                         (case deployPackageFiles encodable Deploy pod vol packageFiles calls of
                            (calls', Some err) \<Rightarrow> (calls', Some err)
                          | (calls', None) \<Rightarrow>
                              deployVolumes encodable Deploy rm pod vols calls')))
           | None \<Rightarrow> deployVolumes encodable Deploy rm pod vols calls))"

definition deployPodVolumes ::
    "(tar_Header \<Rightarrow> bool) \<Rightarrow> (string \<Rightarrow> string \<Rightarrow> buffer \<Rightarrow> error option) \<Rightarrow> ResourceManager \<Rightarrow>
     Pod \<Rightarrow> deploy_call list \<times> error option" where
  "deployPodVolumes encodable Deploy rm pod =
     deployVolumes encodable Deploy rm pod (pod_Volumes pod) []"

section \<open>Package cloud: boot images\<close>

definition BootImageTags_Timestamp ::
    "(string \<Rightarrow> string \<Rightarrow> error + time_Time) \<Rightarrow> BootImageTags \<Rightarrow> error + time_Time" where
  "BootImageTags_Timestamp time_Parse b =
     (let s = Date b @ '' '' @ Time b in time_Parse ''20060102 150405'' s)"

definition BootImageTags_String :: "BootImageTags \<Rightarrow> string" where
  "BootImageTags_String b =
     Company b @ ''-'' @ Product b @ ''-'' @ Version b @ ''-'' @ Date b @ ''-'' @ Time b"

definition BootImageTags_Set :: "BootImageTags \<Rightarrow> string \<Rightarrow> BootImageTags" where
  "BootImageTags_Set b s =
     (let tags = strings_Split s (CHR ''-'');
          b = (if length tags > 0 then b\<lparr>Company := tags ! 0\<rparr> else b);
          b = (if length tags > 1 then b\<lparr>Product := tags ! 1\<rparr> else b);
          b = (if length tags > 2 then b\<lparr>Version := tags ! 2\<rparr> else b);
          b = (if length tags > 3 then b\<lparr>Date := tags ! 3\<rparr> else b);
          b = (if length tags > 4 then b\<lparr>Time := tags ! 4\<rparr> else b)
      in b)"

definition BootImageTags_Matches :: "BootImageTags \<Rightarrow> BootImageTags \<Rightarrow> bool" where
  "BootImageTags_Matches b input =
     (if Company input \<noteq> [] \<and> Company b \<noteq> Company input then False
      else if Product input \<noteq> [] \<and> Product b \<noteq> Product input then False
      else if Version input \<noteq> [] \<and> Version b \<noteq> Version input then False
      else if Date input \<noteq> [] \<and> Date b \<noteq> Date input then False
      else if Time input \<noteq> [] \<and> Time b \<noteq> Time input then False
      else True)"

text \<open>The zero value \<open>BootImageTags{}\<close>.\<close>

definition BootImageTags_zero :: BootImageTags where
  "BootImageTags_zero = \<lparr>Company = [], Product = [], Version = [], Date = [], Time = []\<rparr>"

fun FilterImages :: "Image list \<Rightarrow> BootImageTags \<Rightarrow> Image list" where
  "FilterImages [] tags = []"
| "FilterImages (img # images) tags =
     (let t = BootImageTags_Set BootImageTags_zero (img_Name img) in
      if BootImageTags_Matches t tags then img # FilterImages images tags
      else FilterImages images tags)"

text \<open>
  The comparison that \<open>SortImages\<close> hands to \<open>sort.Slice\<close>. The errors of
  \<open>ParseUint\<close> and of \<open>Timestamp\<close> are logged only: the version is the value that
  \<open>ParseUint\<close> returned with the error, the timestamp is replaced by \<open>time.Unix(0, 0)\<close>.
\<close>

definition imageLess ::
    "(string \<Rightarrow> string \<Rightarrow> error + time_Time) \<Rightarrow> Image \<Rightarrow> Image \<Rightarrow> bool" where
  "imageLess time_Parse imgI imgJ =
     (let bitI = BootImageTags_Set BootImageTags_zero (img_Name imgI);
          versionI = fst (strconv_ParseUint (Version bitI) 10 32);
          dateI = (case BootImageTags_Timestamp time_Parse bitI of
                     Inl err \<Rightarrow> time_Unix 0 0
                   | Inr t \<Rightarrow> t);
          bitJ = BootImageTags_Set BootImageTags_zero (img_Name imgJ);
          versionJ = fst (strconv_ParseUint (Version bitJ) 10 32);
          dateJ = (case BootImageTags_Timestamp time_Parse bitJ of
                     Inl err \<Rightarrow> time_Unix 0 0
                   | Inr t \<Rightarrow> t)
      in if versionI \<noteq> versionJ then versionI < versionJ else Before dateI dateJ)"

text \<open>
  \<open>sort.Slice\<close> is the parameter \<open>sort_Slice\<close>: the library promises a permutation in
  which no element is less than one before it, and no more (the sort is not stable).
\<close>

definition SortImages ::
    "((Image \<Rightarrow> Image \<Rightarrow> bool) \<Rightarrow> Image list \<Rightarrow> Image list) \<Rightarrow>
     (string \<Rightarrow> string \<Rightarrow> error + time_Time) \<Rightarrow> Image list \<Rightarrow> Image list" where
  "SortImages sort_Slice time_Parse images = sort_Slice (imageLess time_Parse) images"

definition GetBestImage ::
    "((Image \<Rightarrow> Image \<Rightarrow> bool) \<Rightarrow> Image list \<Rightarrow> Image list) \<Rightarrow>
     (string \<Rightarrow> string \<Rightarrow> error + time_Time) \<Rightarrow> Image list \<Rightarrow> BootImageTags \<Rightarrow> error + string"
where
  "GetBestImage sort_Slice time_Parse images tags =
     (let images1 = FilterImages images tags;
          images2 = SortImages sort_Slice time_Parse images1
      in if length images2 = 0 then Inl (NoImage tags)
         else Inr (img_Id (images2 ! (length images2 - 1))))"

text \<open>
  The pair that \<open>imageLess\<close> compares, the version first: \<open>imageLess\<close> is the
  lexicographic order of these pairs.
\<close>

definition imageKey ::
    "(string \<Rightarrow> string \<Rightarrow> error + time_Time) \<Rightarrow> Image \<Rightarrow> uint64 \<times> time_Time" where
  "imageKey time_Parse img =
     (let b = BootImageTags_Set BootImageTags_zero (img_Name img)
      in (fst (strconv_ParseUint (Version b) 10 32),
          (case BootImageTags_Timestamp time_Parse b of
             Inl err \<Rightarrow> time_Unix 0 0
           | Inr t \<Rightarrow> t)))"

text \<open>
  The value of a string of decimal digits; \<open>decimalFrom n\<close> is the value after the digits
  of \<open>n\<close>.
\<close>

definition decimalFrom :: "nat \<Rightarrow> string \<Rightarrow> nat" where
  "decimalFrom n s = foldl (\<lambda>n c. 10 * n + (of_char c - of_char (CHR ''0''))) n s"

definition decimal :: "string \<Rightarrow> nat" where
  "decimal s = decimalFrom 0 s"

text \<open>
  The image resolver in the words of the specification: the version is the decimal
  parse of the version field and 0 when the parse fails, the timestamp is epoch zero when
  its parse fails, the matching images are sorted by version, then timestamp, and the
  last one is returned.
\<close>

definition spec_version :: "string \<Rightarrow> uint64" where
  "spec_version s =
     (case strconv_ParseUint s 10 32 of
        (v, None) \<Rightarrow> v
      | (v, Some err) \<Rightarrow> 0)"

definition spec_imageKey ::
    "(string \<Rightarrow> string \<Rightarrow> error + time_Time) \<Rightarrow> Image \<Rightarrow> uint64 \<times> time_Time" where
  "spec_imageKey time_Parse img =
     (let b = BootImageTags_Set BootImageTags_zero (img_Name img)
      in (spec_version (Version b),
          (case BootImageTags_Timestamp time_Parse b of
             Inl err \<Rightarrow> time_Unix 0 0
           | Inr t \<Rightarrow> t)))"

definition spec_GetBestImage ::
    "(string \<Rightarrow> string \<Rightarrow> error + time_Time) \<Rightarrow> Image list \<Rightarrow> BootImageTags \<Rightarrow> error + string"
where
  "spec_GetBestImage time_Parse images tags =
     (case sort_key (spec_imageKey time_Parse)
             (filter (\<lambda>img. BootImageTags_Matches
                              (BootImageTags_Set BootImageTags_zero (img_Name img)) tags)
                images) of
        [] \<Rightarrow> Inl (NoImage tags)
      | img # imgs \<Rightarrow> Inr (img_Id (last (img # imgs))))"

section \<open>Package cloudinitfile\<close>

definition cloudInitHeader :: bytes where
  "cloudInitHeader = ''#cloud-config'' @ [CHR 0x0A]"

definition maxCloudInitSize :: nat where
  "maxCloudInitSize = 16000"

text \<open>
  \<open>File.Contents\<close>; \<open>yaml.Marshal\<close> is the parameter \<open>yaml_Marshal\<close>.
\<close>

definition Contents :: "('a CloudConfig \<Rightarrow> error + bytes) \<Rightarrow> 'a File \<Rightarrow> error + bytes" where
  "Contents yaml_Marshal f =
     (let mergedConfig = userData f;
          mergedFiles = WriteFiles (userData f) @ map snd (kipFiles f);
          mergedConfig = mergedConfig\<lparr>WriteFiles := mergedFiles\<rparr>
      in case yaml_Marshal mergedConfig of
           Inl err \<Rightarrow> Inl err
         | Inr mergedContent \<Rightarrow>
             (let cloudInitContent = cloudInitHeader @ mergedContent in
              if length cloudInitContent > maxCloudInitSize then Inl CloudInitTooLong
              else Inr cloudInitContent))"

section \<open>Properties of the configmap and secret files\<close>

lemma configMapData_eq:
  "configMapData cm k =
     (case map_of (cm_Data cm) k of Some s \<Rightarrow> Some s | None \<Rightarrow> map_of (cm_BinaryData cm) k)"
  by (simp add: configMapData_def split: option.split)

lemma configMapItems_keys:
  "\<forall>k\<in>set ks. configMapData cm k \<noteq> None \<Longrightarrow>
   \<exists>files. configMapItems cmVol cm dm opt (map (\<lambda>k. \<lparr>Key = k, Path = [], Mode = None\<rparr>) ks) acc
            = Inr files
     \<and> (distinct (map fst acc) \<longrightarrow> distinct (map fst files))
     \<and> fst ` set files = fst ` set acc \<union> set ks
     \<and> (\<forall>k. map_of files k =
            (if k \<in> set ks then map_option (\<lambda>bs. \<lparr>data = bs, mode = dm\<rparr>) (configMapData cm k)
             else map_of acc k))"
proof (induction ks arbitrary: acc)
  case Nil
  then show ?case by simp
next
  case (Cons k ks)
  from Cons.prems obtain bs where bs: "configMapData cm k = Some bs" by auto
  let ?acc = "AList.update k \<lparr>data = bs, mode = dm\<rparr> acc"
  from Cons.prems have "\<forall>k\<in>set ks. configMapData cm k \<noteq> None" by simp
  from Cons.IH [OF this, of ?acc] obtain files where
    f: "configMapItems cmVol cm dm opt (map (\<lambda>k. \<lparr>Key = k, Path = [], Mode = None\<rparr>) ks) ?acc
            = Inr files"
     "distinct (map fst ?acc) \<longrightarrow> distinct (map fst files)"
     "fst ` set files = fst ` set ?acc \<union> set ks"
     "\<forall>k'. map_of files k' =
            (if k' \<in> set ks
             then map_option (\<lambda>bs. \<lparr>data = bs, mode = dm\<rparr>) (configMapData cm k')
             else map_of ?acc k')"
    by blast
  have "configMapItems cmVol cm dm opt
          (map (\<lambda>k. \<lparr>Key = k, Path = [], Mode = None\<rparr>) (k # ks)) acc = Inr files"
    using f(1) bs by simp
  moreover have "distinct (map fst acc) \<longrightarrow> distinct (map fst files)"
    using f(2) by (simp add: distinct_update)
  moreover have "fst ` set files = fst ` set acc \<union> set (k # ks)"
    using f(3) by (auto simp: dom_update)
  moreover have "\<forall>k'. map_of files k' =
            (if k' \<in> set (k # ks)
             then map_option (\<lambda>bs. \<lparr>data = bs, mode = dm\<rparr>) (configMapData cm k')
             else map_of acc k')"
    using f(4) bs by (auto simp: update_conv')
  ultimately show ?case by blast
qed

lemma configMapData_None:
  "configMapData cm k = None \<longleftrightarrow>
     k \<notin> fst ` set (cm_Data cm) \<and> k \<notin> fst ` set (cm_BinaryData cm)"
  by (cases "map_of (cm_Data cm) k")
    (simp_all add: configMapData_eq map_of_eq_None_iff [symmetric])

lemma configMapData_keys:
  "\<forall>k \<in> set (map fst (cm_Data cm) @ map fst (cm_BinaryData cm)). configMapData cm k \<noteq> None"
  by (simp add: configMapData_None)

text \<open>
  C1. For a configmap volume source with an empty \<open>Items\<close> list \<open>getConfigMapFiles\<close>
  succeeds and returns exactly one file per key of \<open>Data\<close> and \<open>BinaryData\<close> together:
  the paths are distinct and are these keys, the contents under a key are the value of
  the key (that of \<open>Data\<close> when the key is in \<open>Data\<close>, that of \<open>BinaryData\<close>
  otherwise), and the mode is \<open>DefaultMode\<close> when it is not nil and 0644 (decimal 420)
  when it is.
\<close>

theorem getConfigMapFiles_all_keys:
  assumes "cmv_Items cmVol = []"
  shows "\<exists>files. getConfigMapFiles cmVol cm = Inr files
     \<and> distinct (map fst files)
     \<and> set (map fst files) = fst ` set (cm_Data cm) \<union> fst ` set (cm_BinaryData cm)
     \<and> (\<forall>k s. map_of (cm_Data cm) k = Some s \<longrightarrow>
           map_of files k =
             Some \<lparr>data = s,
                    mode = (case cmv_DefaultMode cmVol of Some m \<Rightarrow> m | None \<Rightarrow> 420)\<rparr>)
     \<and> (\<forall>k b. map_of (cm_Data cm) k = None \<and> map_of (cm_BinaryData cm) k = Some b \<longrightarrow>
           map_of files k =
             Some \<lparr>data = b,
                    mode = (case cmv_DefaultMode cmVol of Some m \<Rightarrow> m | None \<Rightarrow> 420)\<rparr>)"
proof -
  let ?dm = "case cmv_DefaultMode cmVol of Some m \<Rightarrow> m | None \<Rightarrow> defaultVolumeFileMode"
  let ?opt = "case cmv_Optional cmVol of Some b \<Rightarrow> b | None \<Rightarrow> False"
  let ?ks = "map fst (cm_Data cm) @ map fst (cm_BinaryData cm)"
  have dm: "?dm = (case cmv_DefaultMode cmVol of Some m \<Rightarrow> m | None \<Rightarrow> 420)"
    by (simp add: defaultVolumeFileMode_def split: option.split)
  from configMapItems_keys [OF configMapData_keys, of cmVol cm ?dm ?opt "[]"]
  obtain files where
    f: "configMapItems cmVol cm ?dm ?opt (map (\<lambda>k. \<lparr>Key = k, Path = [], Mode = None\<rparr>) ?ks) []
          = Inr files"
       "distinct (map fst files)"
       "fst ` set files = set ?ks"
       "\<forall>k. map_of files k =
          (if k \<in> set ?ks then map_option (\<lambda>bs. \<lparr>data = bs, mode = ?dm\<rparr>) (configMapData cm k)
           else None)"
    by auto
  have "getConfigMapFiles cmVol cm = Inr files"
    using f(1) assms by (simp add: getConfigMapFiles_def)
  moreover have "set (map fst files) = fst ` set (cm_Data cm) \<union> fst ` set (cm_BinaryData cm)"
    using f(3) by simp
  moreover have "map_of files k = Some \<lparr>data = s, mode = ?dm\<rparr>"
    if "map_of (cm_Data cm) k = Some s" for k s
  proof -
    from that have "k \<in> set ?ks" by (auto dest: map_of_SomeD intro: rev_image_eqI)
    with f(4) that show ?thesis by (simp add: configMapData_eq)
  qed
  moreover have "map_of files k = Some \<lparr>data = b, mode = ?dm\<rparr>"
    if "map_of (cm_Data cm) k = None \<and> map_of (cm_BinaryData cm) k = Some b" for k b
  proof -
    from that have "k \<in> set ?ks" by (auto dest: map_of_SomeD intro: rev_image_eqI)
    with f(4) that show ?thesis by (simp add: configMapData_eq)
  qed
  ultimately show ?thesis using f(2) unfolding dm by blast
qed

theorem getConfigMapFiles_all_keys_witness:
  "cmv_Items \<lparr>cmv_Name = ''cm'', cmv_Items = [], cmv_DefaultMode = None, cmv_Optional = None\<rparr> = []
   \<and> (\<exists>files.
         getConfigMapFiles
           \<lparr>cmv_Name = ''cm'', cmv_Items = [], cmv_DefaultMode = None, cmv_Optional = None\<rparr>
           \<lparr>cm_Namespace = ''default'', cm_Name = ''cm'',
            cm_Data = [(''a'', ''A''), (''b'', ''B'')],
            cm_BinaryData = [(''c'', [CHR 0x01, CHR 0x02])]\<rparr> = Inr files
       \<and> distinct (map fst files)
       \<and> set (map fst files) = {''a'', ''b'', ''c''}
       \<and> map_of files ''a'' = Some \<lparr>data = ''A'', mode = 420\<rparr>
       \<and> map_of files ''b'' = Some \<lparr>data = ''B'', mode = 420\<rparr>
       \<and> map_of files ''c'' = Some \<lparr>data = [CHR 0x01, CHR 0x02], mode = 420\<rparr>)"
proof -
  let ?vol = "\<lparr>cmv_Name = ''cm'', cmv_Items = [], cmv_DefaultMode = None, cmv_Optional = None\<rparr>"
  let ?cm = "\<lparr>cm_Namespace = ''default'', cm_Name = ''cm'',
            cm_Data = [(''a'', ''A''), (''b'', ''B'')],
            cm_BinaryData = [(''c'', [CHR 0x01, CHR 0x02])]\<rparr>"
  have items: "cmv_Items ?vol = []" by simp
  from getConfigMapFiles_all_keys [OF items, of ?cm] obtain files where
    f: "getConfigMapFiles ?vol ?cm = Inr files" "distinct (map fst files)"
       "set (map fst files) = fst ` set (cm_Data ?cm) \<union> fst ` set (cm_BinaryData ?cm)"
       "\<And>k s. map_of (cm_Data ?cm) k = Some s \<Longrightarrow>
           map_of files k =
             Some \<lparr>data = s, mode = (case cmv_DefaultMode ?vol of Some m \<Rightarrow> m | None \<Rightarrow> 420)\<rparr>"
       "\<And>k b. map_of (cm_Data ?cm) k = None \<and> map_of (cm_BinaryData ?cm) k = Some b \<Longrightarrow>
           map_of files k =
             Some \<lparr>data = b, mode = (case cmv_DefaultMode ?vol of Some m \<Rightarrow> m | None \<Rightarrow> 420)\<rparr>"
    by blast
  have "set (map fst files) = {''a'', ''b'', ''c''}" using f(3) by auto
  moreover have "map_of files ''a'' = Some \<lparr>data = ''A'', mode = 420\<rparr>"
    using f(4) [of "''a''" "''A''"] by simp
  moreover have "map_of files ''b'' = Some \<lparr>data = ''B'', mode = 420\<rparr>"
    using f(4) [of "''b''" "''B''"] by simp
  moreover have "map_of files ''c'' = Some \<lparr>data = [CHR 0x01, CHR 0x02], mode = 420\<rparr>"
    using f(5) [of "''c''" "[CHR 0x01, CHR 0x02]"] by simp
  ultimately show ?thesis using items f(1,2) by blast
qed

lemma configMapItems_append:
  "configMapItems cmVol cm dm opt (xs @ ys) acc =
     (case configMapItems cmVol cm dm opt xs acc of
        Inl e \<Rightarrow> Inl e
      | Inr acc' \<Rightarrow> configMapItems cmVol cm dm opt ys acc')"
  by (induction xs arbitrary: acc) (auto simp: Let_def split: option.split)

lemma configMapItems_preserve:
  "configMapItems cmVol cm dm opt ys acc = Inr files \<Longrightarrow>
   \<forall>it \<in> set ys. (if Path it \<noteq> [] then Path it else Key it) \<noteq> p \<Longrightarrow>
   map_of files p = map_of acc p"
proof (induction ys arbitrary: acc)
  case Nil
  then show ?case by simp
next
  case (Cons y ys)
  show ?case
  proof (cases "configMapData cm (Key y)")
    case None
    with Cons.prems have "configMapItems cmVol cm dm opt ys acc = Inr files"
      by (simp split: if_splits)
    with Cons.IH Cons.prems(2) show ?thesis by simp
  next
    case (Some bs)
    let ?acc = "AList.update (if Path y \<noteq> [] then Path y else Key y)
                 \<lparr>data = bs, mode = (case Mode y of Some m \<Rightarrow> m | None \<Rightarrow> dm)\<rparr> acc"
    from Some Cons.prems have "configMapItems cmVol cm dm opt ys ?acc = Inr files"
      by (simp add: Let_def)
    with Cons.IH Cons.prems(2) have "map_of files p = map_of ?acc p" by simp
    also have "\<dots> = map_of acc p" using Cons.prems(2) by (auto simp: update_conv')
    finally show ?thesis .
  qed
qed

text \<open>
  C10. In \<open>getConfigMapFiles\<close>, for an item (of \<open>Items\<close>, or of the list made from the
  keys when \<open>Items\<close> is empty) that no later item overwrites: when the key is in
  \<open>Data\<close> the file holds the string of \<open>Data\<close>, whatever \<open>BinaryData\<close> has under
  the key; the bytes of \<open>BinaryData\<close> are used only when the key is not in \<open>Data\<close>.
\<close>

theorem getConfigMapFiles_data_first:
  assumes "getConfigMapFiles cmVol cm = Inr files"
    and "(if cmv_Items cmVol = []
          then map (\<lambda>k. \<lparr>Key = k, Path = [], Mode = None\<rparr>) (map fst (cm_Data cm))
               @ map (\<lambda>k. \<lparr>Key = k, Path = [], Mode = None\<rparr>) (map fst (cm_BinaryData cm))
          else cmv_Items cmVol) = pre @ item # post"
    and "\<forall>it \<in> set post. (if Path it \<noteq> [] then Path it else Key it)
                          \<noteq> (if Path item \<noteq> [] then Path item else Key item)"
  shows "(\<forall>s. map_of (cm_Data cm) (Key item) = Some s \<longrightarrow>
            map_of files (if Path item \<noteq> [] then Path item else Key item) =
              Some \<lparr>data = s,
                     mode = (case Mode item of
                               Some m \<Rightarrow> m
                             | None \<Rightarrow> (case cmv_DefaultMode cmVol of
                                          Some m \<Rightarrow> m | None \<Rightarrow> 420))\<rparr>)
       \<and> (\<forall>b. map_of (cm_Data cm) (Key item) = None
               \<and> map_of (cm_BinaryData cm) (Key item) = Some b \<longrightarrow>
            map_of files (if Path item \<noteq> [] then Path item else Key item) =
              Some \<lparr>data = b,
                     mode = (case Mode item of
                               Some m \<Rightarrow> m
                             | None \<Rightarrow> (case cmv_DefaultMode cmVol of
                                          Some m \<Rightarrow> m | None \<Rightarrow> 420))\<rparr>)"
proof -
  let ?dm = "case cmv_DefaultMode cmVol of Some m \<Rightarrow> m | None \<Rightarrow> defaultVolumeFileMode"
  let ?opt = "case cmv_Optional cmVol of Some b \<Rightarrow> b | None \<Rightarrow> False"
  let ?p = "if Path item \<noteq> [] then Path item else Key item"
  have dm: "?dm = (case cmv_DefaultMode cmVol of Some m \<Rightarrow> m | None \<Rightarrow> 420)"
    by (simp add: defaultVolumeFileMode_def split: option.split)
  from assms(1,2) have run: "configMapItems cmVol cm ?dm ?opt (pre @ item # post) [] = Inr files"
    by (simp add: getConfigMapFiles_def split: if_splits)
  then obtain acc where
    acc: "configMapItems cmVol cm ?dm ?opt (item # post) acc = Inr files"
    by (auto simp: configMapItems_append split: sum.splits)
  have "map_of files ?p = Some \<lparr>data = bs, mode = (case Mode item of Some m \<Rightarrow> m | None \<Rightarrow> ?dm)\<rparr>"
    if bs: "configMapData cm (Key item) = Some bs" for bs
  proof -
    let ?acc = "AList.update ?p
                 \<lparr>data = bs, mode = (case Mode item of Some m \<Rightarrow> m | None \<Rightarrow> ?dm)\<rparr> acc"
    from acc bs have "configMapItems cmVol cm ?dm ?opt post ?acc = Inr files"
      by (simp add: Let_def)
    from configMapItems_preserve [OF this, of ?p] assms(3)
    have "map_of files ?p = map_of ?acc ?p" by simp
    then show ?thesis by (simp add: update_conv')
  qed
  then show ?thesis unfolding dm by (simp add: configMapData_eq)
qed

theorem getConfigMapFiles_data_first_witness:
  "map_of [(''x/y'', \<lparr>data = ''A'', mode = 420\<rparr>)] ''x/y'' = Some \<lparr>data = ''A'', mode = 420\<rparr>
   \<and> getConfigMapFiles
       \<lparr>cmv_Name = ''cm'', cmv_Items = [\<lparr>Key = ''a'', Path = ''x/y'', Mode = None\<rparr>],
        cmv_DefaultMode = None, cmv_Optional = None\<rparr>
       \<lparr>cm_Namespace = ''default'', cm_Name = ''cm'', cm_Data = [(''a'', ''A'')],
        cm_BinaryData = [(''a'', ''Z'')]\<rparr>
     = Inr [(''x/y'', \<lparr>data = ''A'', mode = 420\<rparr>)]"
proof -
  have run: "getConfigMapFiles
       \<lparr>cmv_Name = ''cm'', cmv_Items = [\<lparr>Key = ''a'', Path = ''x/y'', Mode = None\<rparr>],
        cmv_DefaultMode = None, cmv_Optional = None\<rparr>
       \<lparr>cm_Namespace = ''default'', cm_Name = ''cm'', cm_Data = [(''a'', ''A'')],
        cm_BinaryData = [(''a'', ''Z'')]\<rparr>
     = Inr [(''x/y'', \<lparr>data = ''A'', mode = 420\<rparr>)]"
    by (simp add: getConfigMapFiles_def configMapData_def defaultVolumeFileMode_def)
  from getConfigMapFiles_data_first [OF run, of "[]" "\<lparr>Key = ''a'', Path = ''x/y'', Mode = None\<rparr>" "[]"]
  show ?thesis using run by simp
qed















section \<open>Properties of the deploy package\<close>

lemma writePackageFiles_entries:
  "tw_nb tw = 0 \<Longrightarrow> \<forall>(path, file) \<in> set contents. encodable (packageHeader path file) \<Longrightarrow>
   writePackageFiles encodable contents tw =
     Inr \<lparr>tw_entries = tw_entries tw
                         @ map (\<lambda>(path, file). (packageHeader path file, data file)) contents,
          tw_nb = 0\<rparr>"
proof (induction contents arbitrary: tw)
  case Nil
  then show ?case by simp
next
  case (Cons e contents)
  obtain path pf where e: "e = (path, pf)" by (cases e)
  let ?tw1 = "\<lparr>tw_entries = tw_entries tw @ [(packageHeader path pf, [])],
               tw_nb = int (length (data pf))\<rparr>"
  let ?tw2 = "\<lparr>tw_entries = tw_entries tw @ [(packageHeader path pf, data pf)],
               tw_nb = 0\<rparr>"
  have h: "tar_WriteHeader encodable (packageHeader path pf) tw = Inr ?tw1"
    using Cons.prems e by (simp add: tar_WriteHeader_def) (simp add: packageHeader_def)
  have w: "tar_Write (data pf) ?tw1 = Inr ?tw2"
    by (simp add: tar_Write_def)
  have "writePackageFiles encodable contents ?tw2 =
     Inr \<lparr>tw_entries = tw_entries ?tw2
                         @ map (\<lambda>(path, file). (packageHeader path file, data file)) contents,
          tw_nb = 0\<rparr>"
    using Cons.prems by (intro Cons.IH) auto
  then show ?case using h w e by simp
qed

lemma writePackageFiles_refused:
  "writePackageFiles encodable contents tw = Inr tw' \<Longrightarrow>
   \<forall>(path, file) \<in> set contents. encodable (packageHeader path file)"
proof (induction contents arbitrary: tw)
  case Nil
  then show ?case by simp
next
  case (Cons e contents)
  obtain path pf where e: "e = (path, pf)" by (cases e)
  from Cons.prems e obtain tw1 tw2 where
    "tar_WriteHeader encodable (packageHeader path pf) tw = Inr tw1"
    "writePackageFiles encodable contents tw2 = Inr tw'"
    by (auto simp: Let_def split: sum.splits)
  then show ?case using Cons.IH e by (auto simp: tar_WriteHeader_def split: if_splits)
qed

lemma makeDeployPackage_ok:
  "\<forall>(path, file) \<in> set contents. encodable (packageHeader path file) \<Longrightarrow>
   makeDeployPackage encodable contents =
     Inr (GzipTar (map (\<lambda>(path, file). (packageHeader path file, data file)) contents))"
  by (simp add: makeDeployPackage_def writePackageFiles_entries tar_NewWriter_def tar_Close_def)

lemma makeDeployPackage_Inr:
  "makeDeployPackage encodable contents = Inr buf \<Longrightarrow>
   \<forall>(path, file) \<in> set contents. encodable (packageHeader path file)"
proof -
  assume "makeDeployPackage encodable contents = Inr buf"
  then obtain tw' where "writePackageFiles encodable contents tar_NewWriter = Inr tw'"
    by (auto simp: makeDeployPackage_def split: sum.splits)
  then show ?thesis by (rule writePackageFiles_refused)
qed

lemma strings_Split_sep:
  "sep \<notin> set n \<Longrightarrow> strings_Split (n @ sep # rest) sep = n # strings_Split rest sep"
  by (induction n) auto

lemma strings_Split_plain: "sep \<notin> set n \<Longrightarrow> strings_Split n sep = [n]"
  by (induction n) auto

lemma strings_Split_Join:
  "names \<noteq> [] \<Longrightarrow> \<forall>n \<in> set names. sep \<notin> set n \<Longrightarrow>
   strings_Split (strings_Join names [sep]) sep = names"
  by (induction names "[sep]" rule: strings_Join.induct)
    (simp_all add: strings_Split_plain strings_Split_sep)

lemma clean_elems_plain:
  "\<forall>n \<in> set names. n \<noteq> [] \<and> n \<noteq> ''.'' \<and> n \<noteq> ''..'' \<Longrightarrow>
   clean_elems rooted names out = out @ names"
  by (induction names arbitrary: out) auto

lemma strings_Join_Cons:
  "names \<noteq> [] \<Longrightarrow> strings_Join (n # names) sep = n @ sep @ strings_Join names sep"
  by (cases names) simp_all

lemma filepath_Join_ROOTFS:
  assumes "names \<noteq> []"
    and "\<forall>n \<in> set names. n \<noteq> [] \<and> n \<noteq> ''.'' \<and> n \<noteq> ''..'' \<and> CHR ''/'' \<notin> set n"
  shows "filepath_Join [''.'', ''ROOTFS'', strings_Join names ''/'']
           = ''ROOTFS/'' @ strings_Join names ''/''"
proof -
  let ?p = "strings_Join names ''/''"
  have sp: "strings_Split ?p (CHR ''/'') = names"
    using assms strings_Split_Join [of names "CHR ''/''"] by simp
  have "strings_Split (''./ROOTFS/'' @ ?p) (CHR ''/'') = ''.'' # ''ROOTFS'' # names"
    using strings_Split_sep [of "CHR ''/''" "''.''" "''ROOTFS/'' @ ?p"]
      strings_Split_sep [of "CHR ''/''" "''ROOTFS''" ?p] sp
    by simp
  moreover have "clean_elems False (''.'' # ''ROOTFS'' # names) [] = ''ROOTFS'' # names"
    using assms clean_elems_plain [of names False "[''ROOTFS'']"] by simp
  ultimately show ?thesis
    using assms(1)
    by (simp add: filepath_Join_def filepath_Clean_def strings_Join_Cons)
qed


lemma packageHeader_mode: "sint (hdr_Mode (packageHeader path pf)) = sint (mode pf)"
  by (simp add: packageHeader_def sint_up_scast is_up)

text \<open>
  C3, as the code has it. When the tar writer accepts the header of every entry,
  \<open>makeDeployPackage\<close> returns the gzip compression of a tar stream with one entry per
  entry of the map, in the order of the iteration, each with the bytes of the file; it
  returns a buffer in no other case. The header of an entry has the name
  \<open>filepath.Join(".", "ROOTFS", path)\<close>, which is the cleaned path: for a path of names
  separated by single slashes, none of them empty, \<open>.\<close> or \<open>..\<close>, this is
  \<open>ROOTFS/<path>\<close>, without \<open>./\<close> in front. Its mode is the mode of the file, its size
  the number of bytes of the file, its type flag that of a regular file, its uid and gid 0.
\<close>

theorem makeDeployPackage_entries:
  "((\<forall>(path, file) \<in> set contents. encodable (packageHeader path file)) \<longrightarrow>
      makeDeployPackage encodable contents =
        Inr (GzipTar (map (\<lambda>(path, file). (packageHeader path file, data file)) contents)))
   \<and> (makeDeployPackage encodable contents = Inr buf \<longrightarrow>
        (\<forall>(path, file) \<in> set contents. encodable (packageHeader path file)))
   \<and> hdr_Name (packageHeader path pf) = filepath_Join [''.'', ''ROOTFS'', path]
   \<and> (names \<noteq> []
        \<and> (\<forall>n \<in> set names. n \<noteq> [] \<and> n \<noteq> ''.'' \<and> n \<noteq> ''..'' \<and> CHR ''/'' \<notin> set n) \<longrightarrow>
        hdr_Name (packageHeader (strings_Join names ''/'') pf)
          = ''ROOTFS/'' @ strings_Join names ''/'')
   \<and> sint (hdr_Mode (packageHeader path pf)) = sint (mode pf)
   \<and> hdr_Size (packageHeader path pf) = int (length (data pf))
   \<and> hdr_Typeflag (packageHeader path pf) = tar_TypeReg
   \<and> hdr_Uid (packageHeader path pf) = 0
   \<and> hdr_Gid (packageHeader path pf) = 0"
proof (intro conjI impI)
  show "makeDeployPackage encodable contents =
        Inr (GzipTar (map (\<lambda>(path, file). (packageHeader path file, data file)) contents))"
    if "\<forall>(path, file) \<in> set contents. encodable (packageHeader path file)"
    using that by (rule makeDeployPackage_ok)
  show "\<forall>(path, file) \<in> set contents. encodable (packageHeader path file)"
    if "makeDeployPackage encodable contents = Inr buf"
    using that by (rule makeDeployPackage_Inr)
  show "hdr_Name (packageHeader (strings_Join names ''/'') pf)
          = ''ROOTFS/'' @ strings_Join names ''/''"
    if "names \<noteq> []
        \<and> (\<forall>n \<in> set names. n \<noteq> [] \<and> n \<noteq> ''.'' \<and> n \<noteq> ''..'' \<and> CHR ''/'' \<notin> set n)"
    using that filepath_Join_ROOTFS [of names] by (simp add: packageHeader_def)
  show "sint (hdr_Mode (packageHeader path pf)) = sint (mode pf)"
    by (rule packageHeader_mode)
qed (simp_all add: packageHeader_def)

theorem makeDeployPackage_entries_witness:
  "makeDeployPackage (\<lambda>_. True) [(''x/y'', \<lparr>data = ''A'', mode = 420\<rparr>)]
     = Inr (GzipTar [(packageHeader ''x/y'' \<lparr>data = ''A'', mode = 420\<rparr>, ''A'')])
   \<and> hdr_Name (packageHeader ''x/y'' \<lparr>data = ''A'', mode = 420\<rparr>) = ''ROOTFS/x/y''
   \<and> sint (hdr_Mode (packageHeader ''x/y'' \<lparr>data = ''A'', mode = 420\<rparr>)) = 420"
proof -
  note inst = makeDeployPackage_entries
    [of "[(''x/y'', \<lparr>data = ''A'', mode = 420\<rparr>)]" "\<lambda>_. True"
        "GzipTar [(packageHeader ''x/y'' \<lparr>data = ''A'', mode = 420\<rparr>, ''A'')]"
        "''x/y''" "\<lparr>data = ''A'', mode = 420\<rparr>" "[''x'', ''y'']"]
  have "makeDeployPackage (\<lambda>_. True) [(''x/y'', \<lparr>data = ''A'', mode = 420\<rparr>)]
     = Inr (GzipTar [(packageHeader ''x/y'' \<lparr>data = ''A'', mode = 420\<rparr>, ''A'')])"
    using inst [THEN conjunct1] by simp
  moreover have "hdr_Name (packageHeader ''x/y'' \<lparr>data = ''A'', mode = 420\<rparr>) = ''ROOTFS/x/y''"
    using inst [THEN conjunct2, THEN conjunct2, THEN conjunct2, THEN conjunct1] by simp
  moreover have "sint (hdr_Mode (packageHeader ''x/y'' \<lparr>data = ''A'', mode = 420\<rparr>)) = 420"
    using inst [THEN conjunct2, THEN conjunct2, THEN conjunct2, THEN conjunct2, THEN conjunct1]
    by simp
  ultimately show ?thesis by blast
qed

text \<open>
  The claim as the specification states it, with the name \<open>./ROOTFS/<path>\<close>, fails: for
  the file \<open>a\<close> the entry is named \<open>ROOTFS/a\<close>.
\<close>

theorem makeDeployPackage_name_counterexample:
  "makeDeployPackage (\<lambda>_. True) [(''a'', \<lparr>data = ''A'', mode = 420\<rparr>)]
     = Inr (GzipTar [(\<lparr>hdr_Name = ''ROOTFS/a'', hdr_Mode = 420, hdr_Size = 1,
             hdr_Typeflag = 0x30, hdr_Uid = 0, hdr_Gid = 0\<rparr>, ''A'')])
   \<and> ''ROOTFS/a'' \<noteq> ''./ROOTFS/'' @ ''a''"
  by (simp add: makeDeployPackage_def packageHeader_def tar_NewWriter_def tar_WriteHeader_def
      tar_Write_def tar_Close_def tar_TypeReg_def filepath_Join_def filepath_Clean_def)

section \<open>Properties of the boot image tags\<close>

lemma strings_Split_five:
  assumes "sep \<notin> set a" "sep \<notin> set b" "sep \<notin> set c" "sep \<notin> set d" "sep \<notin> set e"
  shows "strings_Split (a @ sep # b @ sep # c @ sep # d @ sep # e) sep = [a, b, c, d, e]"
  using assms by (simp add: strings_Split_sep strings_Split_plain)

text \<open>
  C6, as the code has it. For a \<open>BootImageTags\<close> value none of whose five fields
  contains the separator \<open>-\<close>, whether the fields are set or empty, \<open>Set\<close> on the string
  that \<open>String\<close> produces yields the value again, whatever the receiver held before.
\<close>

theorem BootImageTags_Set_String:
  assumes "CHR ''-'' \<notin> set (Company t)" "CHR ''-'' \<notin> set (Product t)"
    "CHR ''-'' \<notin> set (Version t)" "CHR ''-'' \<notin> set (Date t)" "CHR ''-'' \<notin> set (Time t)"
  shows "BootImageTags_Set b (BootImageTags_String t) = (t :: BootImageTags)"
proof -
  have "strings_Split (BootImageTags_String t) (CHR ''-'')
          = [Company t, Product t, Version t, Date t, Time t]"
    unfolding BootImageTags_String_def using strings_Split_five [OF assms] by simp
  then show ?thesis by (simp add: BootImageTags_Set_def)
qed

theorem BootImageTags_Set_String_witness:
  "BootImageTags_Set BootImageTags_zero
     (BootImageTags_String
        \<lparr>Company = ''kip'', Product = ''itzo'', Version = ''2'', Date = ''20240601'',
         Time = ''010000''\<rparr>)
   = \<lparr>Company = ''kip'', Product = ''itzo'', Version = ''2'', Date = ''20240601'',
      Time = ''010000''\<rparr>"
  using BootImageTags_Set_String
    [of "\<lparr>Company = ''kip'', Product = ''itzo'', Version = ''2'', Date = ''20240601'',
          Time = ''010000''\<rparr>" BootImageTags_zero]
  by simp

text \<open>
  The claim as the specification states it fails for a field that contains \<open>-\<close>: all
  five fields are set, and \<open>Set\<close> splits the company in two.
\<close>

theorem BootImageTags_Set_String_counterexample:
  "Company \<lparr>Company = ''a-b'', Product = ''p'', Version = ''1'', Date = ''20240101'',
            Time = ''010000''\<rparr> \<noteq> []
   \<and> BootImageTags_Set BootImageTags_zero
       (BootImageTags_String
          \<lparr>Company = ''a-b'', Product = ''p'', Version = ''1'', Date = ''20240101'',
           Time = ''010000''\<rparr>)
     = \<lparr>Company = ''a'', Product = ''b'', Version = ''p'', Date = ''1'', Time = ''20240101''\<rparr>
   \<and> \<lparr>Company = ''a'', Product = ''b'', Version = ''p'', Date = ''1'', Time = ''20240101''\<rparr>
     \<noteq> \<lparr>Company = ''a-b'', Product = ''p'', Version = ''1'', Date = ''20240101'',
         Time = ''010000''\<rparr>"
  by (simp add: BootImageTags_Set_def BootImageTags_String_def BootImageTags_zero_def)

section \<open>Properties of the image resolver\<close>

lemma FilterImages_filter:
  "FilterImages images tags =
     filter (\<lambda>img. BootImageTags_Matches (BootImageTags_Set BootImageTags_zero (img_Name img)) tags)
       images"
  by (induction images) (simp_all add: Let_def)

lemma BootImageTags_Matches_iff:
  "BootImageTags_Matches b input \<longleftrightarrow>
     (Company input = [] \<or> Company b = Company input)
   \<and> (Product input = [] \<or> Product b = Product input)
   \<and> (Version input = [] \<or> Version b = Version input)
   \<and> (Date input = [] \<or> Date b = Date input)
   \<and> (Time input = [] \<or> Time b = Time input)"
  by (auto simp: BootImageTags_Matches_def)

lemma imageLess_key: "imageLess tp a b \<longleftrightarrow> imageKey tp a < imageKey tp b"
  by (auto simp: imageLess_def imageKey_def Let_def Before_def less_prod_def)

lemma sorted_last_max:
  assumes "sorted_wrt (\<lambda>a b. key a \<le> key b) ys" "x \<in> set ys"
  shows "(key x :: 'k :: linorder) \<le> key (last ys)"
proof -
  from assms(2) have ne: "ys \<noteq> []" by auto
  then have ys: "ys = butlast ys @ [last ys]" by simp
  from assms(1) have "\<forall>y \<in> set (butlast ys). key y \<le> key (last ys)"
    by (subst (asm) ys) (simp add: sorted_wrt_append)
  moreover from assms(2) have "x \<in> set (butlast ys) \<or> x = last ys"
    by (subst (asm) ys) auto
  ultimately show ?thesis by auto
qed

lemma GetBestImage_sorted:
  assumes "\<forall>xs. mset (sort_Slice (imageLess tp) xs) = mset xs
              \<and> sorted_wrt (\<lambda>a b. \<not> imageLess tp b a) (sort_Slice (imageLess tp) xs)"
  shows "(FilterImages images tags = [] \<longrightarrow>
            GetBestImage sort_Slice tp images tags = Inl (NoImage tags))
       \<and> (FilterImages images tags \<noteq> [] \<longrightarrow>
            (\<exists>best \<in> set (FilterImages images tags).
               GetBestImage sort_Slice tp images tags = Inr (img_Id best)
               \<and> (\<forall>img \<in> set (FilterImages images tags). imageKey tp img \<le> imageKey tp best)))"
proof -
  let ?xs = "FilterImages images tags"
  let ?ys = "sort_Slice (imageLess tp) ?xs"
  from assms have m: "mset ?ys = mset ?xs"
    and s: "sorted_wrt (\<lambda>a b. \<not> imageLess tp b a) ?ys" by auto
  from m have set: "set ?ys = set ?xs" by (rule mset_eq_setD)
  from m have len: "length ?ys = length ?xs" by (rule mset_eq_length)
  from s have s': "sorted_wrt (\<lambda>a b. imageKey tp a \<le> imageKey tp b) ?ys"
    by (simp add: imageLess_key not_less)
  have run: "GetBestImage sort_Slice tp images tags =
      (if ?ys = [] then Inl (NoImage tags) else Inr (img_Id (last ?ys)))"
    by (simp add: GetBestImage_def SortImages_def Let_def last_conv_nth)
  show ?thesis
  proof (intro conjI impI)
    assume "?xs = []"
    with len show "GetBestImage sort_Slice tp images tags = Inl (NoImage tags)"
      by (simp add: run)
  next
    assume ne: "?xs \<noteq> []"
    with len have ys: "?ys \<noteq> []" by auto
    then have "last ?ys \<in> set ?xs" using set last_in_set by blast
    moreover have "GetBestImage sort_Slice tp images tags = Inr (img_Id (last ?ys))"
      using ys by (simp add: run)
    moreover have "\<forall>img \<in> set ?xs. imageKey tp img \<le> imageKey tp (last ?ys)"
      using sorted_last_max [OF s'] set by blast
    ultimately show "\<exists>best \<in> set ?xs.
               GetBestImage sort_Slice tp images tags = Inr (img_Id best)
               \<and> (\<forall>img \<in> set ?xs. imageKey tp img \<le> imageKey tp best)"
      by blast
  qed
qed

lemma mset_insertSorted: "mset (insertSorted lt x ys) = add_mset x (mset ys)"
  by (induction ys) auto

lemma mset_insertionSort: "mset (insertionSort lt xs) = mset xs"
  by (induction xs) (simp_all add: insertionSort_def mset_insertSorted)

lemma set_insertSorted: "set (insertSorted lt x ys) = insert x (set ys)"
  by (induction ys) auto

lemma sorted_insertSorted:
  fixes key :: "'a \<Rightarrow> 'k :: linorder"
  assumes "\<And>a b. lt a b \<longleftrightarrow> key a < key b"
  shows "sorted_wrt (\<lambda>a b. key a \<le> key b) ys \<Longrightarrow>
         sorted_wrt (\<lambda>a b. key a \<le> key b) (insertSorted lt x ys)"
  by (induction ys) (auto simp: assms set_insertSorted)

lemma sorted_insertionSort:
  fixes key :: "'a \<Rightarrow> 'k :: linorder"
  assumes "\<And>a b. lt a b \<longleftrightarrow> key a < key b"
  shows "sorted_wrt (\<lambda>a b. key a \<le> key b) (insertionSort lt xs)"
  by (induction xs) (simp_all add: insertionSort_def sorted_insertSorted [OF assms])

lemma insertionSort_imageLess:
  "\<forall>xs. mset (insertionSort (imageLess tp) xs) = mset xs
       \<and> sorted_wrt (\<lambda>a b. \<not> imageLess tp b a) (insertionSort (imageLess tp) xs)"
  using sorted_insertionSort [of "imageLess tp" "imageKey tp"]
  by (simp add: mset_insertionSort imageLess_key not_less)

lemma decimalFrom_ge: "n \<le> decimalFrom n s"
proof (induction s arbitrary: n)
  case Nil
  then show ?case by (simp add: decimalFrom_def)
next
  case (Cons c s)
  have "n \<le> 10 * n + (of_char c - of_char (CHR ''0''))" by simp
  also have "\<dots> \<le> decimalFrom (10 * n + (of_char c - of_char (CHR ''0''))) s" by (rule Cons.IH)
  finally show ?case by (simp add: decimalFrom_def)
qed

lemma cutoff10: "((- 1) div 10 + 1 :: 64 word) = 1844674407370955162"
  by simp

lemma parseUintLoop_digits:
  assumes "unat n \<le> 4294967295" "\<forall>c \<in> set cs. isDigit c"
  shows "parseUintLoop 10 1844674407370955162 4294967295 n cs =
     (if decimalFrom (unat n) cs \<le> 4294967295
      then (of_nat (decimalFrom (unat n) cs), None)
      else (4294967295, Some ErrRange))"
  using assms
proof (induction cs arbitrary: n)
  case Nil
  then show ?case by (simp add: decimalFrom_def)
next
  case (Cons c cs)
  let ?d = "of_char c - of_char (CHR ''0'') :: nat"
  from Cons.prems have dig: "isDigit c" by simp
  then have d: "?d < 10" by (auto simp: isDigit_def)
  let ?n1 = "n * 10 + of_nat ?d :: 64 word"
  have un1: "unat ?n1 = unat n * 10 + ?d"
    using Cons.prems(1) d by (simp add: unat_word_ariths unat_of_nat)
  have lt: "\<not> (1844674407370955162 :: 64 word) \<le> n"
    using Cons.prems(1) by (simp add: word_le_nat_alt)
  have dlt: "\<not> (10 :: 64 word) \<le> of_nat ?d"
    using d by (simp add: word_le_nat_alt unat_of_nat)
  have nolt: "\<not> ?n1 < n * 10"
    using Cons.prems(1) d un1 by (simp add: word_less_nat_alt unat_word_ariths)
  have step: "parseUintLoop 10 1844674407370955162 4294967295 n (c # cs) =
      (if ?n1 > 4294967295 then (4294967295, Some ErrRange)
       else parseUintLoop 10 1844674407370955162 4294967295 ?n1 cs)"
    using dig lt dlt nolt by (simp add: isDigit_def Let_def)
  have df: "decimalFrom (unat n) (c # cs) = decimalFrom (unat ?n1) cs"
    using un1 by (simp add: decimalFrom_def mult.commute)
  show ?case
  proof (cases "?n1 > 4294967295")
    case True
    then have "unat ?n1 > 4294967295" by (simp add: word_less_nat_alt)
    with decimalFrom_ge [of "unat ?n1" cs] have "\<not> decimalFrom (unat ?n1) cs \<le> 4294967295"
      by linarith
    with True step df show ?thesis by simp
  next
    case False
    then have "unat ?n1 \<le> 4294967295" by (simp add: word_less_nat_alt not_less)
    from Cons.IH [OF this] Cons.prems(2) False step df show ?thesis by simp
  qed
qed

lemma strconv_ParseUint_digits:
  assumes "s \<noteq> []" "\<forall>c \<in> set s. isDigit c"
  shows "unat (fst (strconv_ParseUint s 10 32)) = min (decimal s) 4294967295"
proof -
  have "strconv_ParseUint s 10 32 = parseUintLoop 10 1844674407370955162 4294967295 0 s"
    using assms(1) by (simp add: strconv_ParseUint_def)
  also have "\<dots> = (if decimalFrom 0 s \<le> 4294967295
      then (of_nat (decimalFrom 0 s), None) else (4294967295, Some ErrRange))"
    using parseUintLoop_digits [of 0 s] assms(2) by simp
  finally show ?thesis
    by (simp add: decimal_def unat_of_nat min_def)
qed

lemma parseUintLoop_nondigit:
  assumes "unat n \<le> 4294967295" "\<forall>c \<in> set ds. isDigit c" "\<not> isDigit c"
  shows "parseUintLoop 10 1844674407370955162 4294967295 n (ds @ c # rest) =
     (if decimalFrom (unat n) ds \<le> 4294967295 then (0, Some ErrSyntax)
      else (4294967295, Some ErrRange))"
  using assms(1,2)
proof (induction ds arbitrary: n)
  case Nil
  then show ?case using assms(3) by (simp add: decimalFrom_def isDigit_def)
next
  case (Cons e ds)
  let ?d = "of_char e - of_char (CHR ''0'') :: nat"
  from Cons.prems have dig: "isDigit e" by simp
  then have d: "?d < 10" by (auto simp: isDigit_def)
  let ?n1 = "n * 10 + of_nat ?d :: 64 word"
  have un1: "unat ?n1 = unat n * 10 + ?d"
    using Cons.prems(1) d by (simp add: unat_word_ariths unat_of_nat)
  have lt: "\<not> (1844674407370955162 :: 64 word) \<le> n"
    using Cons.prems(1) by (simp add: word_le_nat_alt)
  have dlt: "\<not> (10 :: 64 word) \<le> of_nat ?d"
    using d by (simp add: word_le_nat_alt unat_of_nat)
  have nolt: "\<not> ?n1 < n * 10"
    using Cons.prems(1) d un1 by (simp add: word_less_nat_alt unat_word_ariths)
  have step: "parseUintLoop 10 1844674407370955162 4294967295 n ((e # ds) @ c # rest) =
      (if ?n1 > 4294967295 then (4294967295, Some ErrRange)
       else parseUintLoop 10 1844674407370955162 4294967295 ?n1 (ds @ c # rest))"
    using dig lt dlt nolt by (simp add: isDigit_def Let_def)
  have df: "decimalFrom (unat n) (e # ds) = decimalFrom (unat ?n1) ds"
    using un1 by (simp add: decimalFrom_def mult.commute)
  show ?case
  proof (cases "?n1 > 4294967295")
    case True
    then have "unat ?n1 > 4294967295" by (simp add: word_less_nat_alt)
    with decimalFrom_ge [of "unat ?n1" ds] have "\<not> decimalFrom (unat ?n1) ds \<le> 4294967295"
      by linarith
    with True step df show ?thesis by simp
  next
    case False
    then have "unat ?n1 \<le> 4294967295" by (simp add: word_less_nat_alt not_less)
    from Cons.IH [OF this] Cons.prems(2) False step df show ?thesis by simp
  qed
qed

lemma strconv_ParseUint_nondigit:
  assumes "\<forall>c \<in> set ds. isDigit c" "\<not> isDigit c" "decimal ds \<le> 4294967295"
  shows "strconv_ParseUint (ds @ c # rest) 10 32 = (0, Some ErrSyntax)"
  using parseUintLoop_nondigit [of 0 ds c rest] assms
  by (simp add: strconv_ParseUint_def decimal_def)

text \<open>
  C4, as the code has it. Let \<open>sort.Slice\<close> return, as the library promises, a permutation
  in which no element is less than one before it. Then \<open>GetBestImage\<close> keeps exactly the
  images of which every field of the parsed name equals the field of the request where
  that is not empty; it fails with the error of no matching image when none is kept;
  otherwise it returns the id of a kept image that no kept image exceeds in the order by
  version, then timestamp. The timestamp is \<open>time.Unix(0, 0)\<close> when the parser refuses
  the date and time. The version is what \<open>ParseUint\<close> returns, with or without an error:
  for a string of digits its decimal value, capped at \<open>2^32 - 1\<close> (so a version that is
  out of range counts as \<open>2^32 - 1\<close>, not as 0); 0 for the empty string and for a
  string whose digits up to the first byte that is no digit stay in range.
\<close>

theorem GetBestImage_newest:
  assumes "\<forall>xs. mset (sort_Slice (imageLess time_Parse) xs) = mset xs
              \<and> sorted_wrt (\<lambda>a b. \<not> imageLess time_Parse b a)
                    (sort_Slice (imageLess time_Parse) xs)"
  shows "FilterImages images tags =
           filter (\<lambda>img. let t = BootImageTags_Set BootImageTags_zero (img_Name img)
                          in (Company tags = [] \<or> Company t = Company tags)
                           \<and> (Product tags = [] \<or> Product t = Product tags)
                           \<and> (Version tags = [] \<or> Version t = Version tags)
                           \<and> (Date tags = [] \<or> Date t = Date tags)
                           \<and> (Time tags = [] \<or> Time t = Time tags)) images
       \<and> (FilterImages images tags = [] \<longrightarrow>
            GetBestImage sort_Slice time_Parse images tags = Inl (NoImage tags))
       \<and> (FilterImages images tags \<noteq> [] \<longrightarrow>
            (\<exists>best \<in> set (FilterImages images tags).
               GetBestImage sort_Slice time_Parse images tags = Inr (img_Id best)
               \<and> (\<forall>img \<in> set (FilterImages images tags).
                     fst (imageKey time_Parse img) < fst (imageKey time_Parse best)
                     \<or> fst (imageKey time_Parse img) = fst (imageKey time_Parse best)
                       \<and> snd (imageKey time_Parse img) \<le> snd (imageKey time_Parse best))))
       \<and> imageKey time_Parse img =
           (fst (strconv_ParseUint
                   (Version (BootImageTags_Set BootImageTags_zero (img_Name img))) 10 32),
            (case time_Parse ''20060102 150405''
                    (Date (BootImageTags_Set BootImageTags_zero (img_Name img)) @ '' ''
                     @ Time (BootImageTags_Set BootImageTags_zero (img_Name img))) of
               Inl err \<Rightarrow> 0
             | Inr t \<Rightarrow> t))
       \<and> (s \<noteq> [] \<and> (\<forall>c \<in> set s. isDigit c) \<longrightarrow>
            unat (fst (strconv_ParseUint s 10 32)) = min (decimal s) (2 ^ 32 - 1))
       \<and> fst (strconv_ParseUint [] 10 32) = 0
       \<and> ((\<forall>c \<in> set ds. isDigit c) \<and> \<not> isDigit c \<and> decimal ds \<le> 2 ^ 32 - 1 \<longrightarrow>
            fst (strconv_ParseUint (ds @ c # rest) 10 32) = 0)"
proof (intro conjI)
  show "FilterImages images tags =
           filter (\<lambda>img. let t = BootImageTags_Set BootImageTags_zero (img_Name img)
                          in (Company tags = [] \<or> Company t = Company tags)
                           \<and> (Product tags = [] \<or> Product t = Product tags)
                           \<and> (Version tags = [] \<or> Version t = Version tags)
                           \<and> (Date tags = [] \<or> Date t = Date tags)
                           \<and> (Time tags = [] \<or> Time t = Time tags)) images"
    by (simp add: FilterImages_filter BootImageTags_Matches_iff Let_def)
  have run: "(FilterImages images tags = [] \<longrightarrow>
            GetBestImage sort_Slice time_Parse images tags = Inl (NoImage tags))
       \<and> (FilterImages images tags \<noteq> [] \<longrightarrow>
            (\<exists>best \<in> set (FilterImages images tags).
               GetBestImage sort_Slice time_Parse images tags = Inr (img_Id best)
               \<and> (\<forall>img \<in> set (FilterImages images tags).
                     imageKey time_Parse img \<le> imageKey time_Parse best)))"
    using assms by (rule GetBestImage_sorted)
  show "FilterImages images tags = [] \<longrightarrow>
            GetBestImage sort_Slice time_Parse images tags = Inl (NoImage tags)"
    using run by blast
  have le: "a \<le> b \<longleftrightarrow> fst a < fst b \<or> fst a = fst b \<and> snd a \<le> snd b"
    for a b :: "uint64 \<times> time_Time"
    by (auto simp: less_eq_prod_def)
  show "FilterImages images tags \<noteq> [] \<longrightarrow>
            (\<exists>best \<in> set (FilterImages images tags).
               GetBestImage sort_Slice time_Parse images tags = Inr (img_Id best)
               \<and> (\<forall>img \<in> set (FilterImages images tags).
                     fst (imageKey time_Parse img) < fst (imageKey time_Parse best)
                     \<or> fst (imageKey time_Parse img) = fst (imageKey time_Parse best)
                       \<and> snd (imageKey time_Parse img) \<le> snd (imageKey time_Parse best)))"
    using run unfolding le [symmetric] by blast
  show "imageKey time_Parse img =
           (fst (strconv_ParseUint
                   (Version (BootImageTags_Set BootImageTags_zero (img_Name img))) 10 32),
            (case time_Parse ''20060102 150405''
                    (Date (BootImageTags_Set BootImageTags_zero (img_Name img)) @ '' ''
                     @ Time (BootImageTags_Set BootImageTags_zero (img_Name img))) of
               Inl err \<Rightarrow> 0
             | Inr t \<Rightarrow> t))"
    by (simp add: imageKey_def BootImageTags_Timestamp_def time_Unix_def Let_def
        split: sum.split)
  show "s \<noteq> [] \<and> (\<forall>c \<in> set s. isDigit c) \<longrightarrow>
            unat (fst (strconv_ParseUint s 10 32)) = min (decimal s) (2 ^ 32 - 1)"
    using strconv_ParseUint_digits [of s] by simp
  show "fst (strconv_ParseUint [] 10 32) = 0"
    by (simp add: strconv_ParseUint_def)
  show "(\<forall>c \<in> set ds. isDigit c) \<and> \<not> isDigit c \<and> decimal ds \<le> 2 ^ 32 - 1 \<longrightarrow>
            fst (strconv_ParseUint (ds @ c # rest) 10 32) = 0"
    using strconv_ParseUint_nondigit [of ds c rest] by simp
qed

lemma image_names_parsed:
  "BootImageTags_Set BootImageTags_zero ''kip-itzo-1-20240101-010000''
     = \<lparr>Company = ''kip'', Product = ''itzo'', Version = ''1'', Date = ''20240101'',
        Time = ''010000''\<rparr>"
  "BootImageTags_Set BootImageTags_zero ''kip-itzo-2-20230101-010000''
     = \<lparr>Company = ''kip'', Product = ''itzo'', Version = ''2'', Date = ''20230101'',
        Time = ''010000''\<rparr>"
  "BootImageTags_Set BootImageTags_zero ''kip-itzo-2-20240601-010000''
     = \<lparr>Company = ''kip'', Product = ''itzo'', Version = ''2'', Date = ''20240601'',
        Time = ''010000''\<rparr>"
  "BootImageTags_Set BootImageTags_zero ''kip-itzo-4294967296-20240101-010000''
     = \<lparr>Company = ''kip'', Product = ''itzo'', Version = ''4294967296'', Date = ''20240101'',
        Time = ''010000''\<rparr>"
  "BootImageTags_Set BootImageTags_zero ''kip-itzo-5-20240101-010000''
     = \<lparr>Company = ''kip'', Product = ''itzo'', Version = ''5'', Date = ''20240101'',
        Time = ''010000''\<rparr>"
  by (simp_all add: BootImageTags_Set_def BootImageTags_zero_def)

lemma versions_parsed:
  "strconv_ParseUint ''1'' 10 32 = (1, None)"
  "strconv_ParseUint ''2'' 10 32 = (2, None)"
  "strconv_ParseUint ''5'' 10 32 = (5, None)"
  "strconv_ParseUint ''4294967296'' 10 32 = (4294967295, Some ErrRange)"
  by code_simp+

lemma times_parsed:
  "parseCompactTime ''20060102 150405'' ''20240101 010000'' = Inr 1704070800000000000"
  "parseCompactTime ''20060102 150405'' ''20230101 010000'' = Inr 1672534800000000000"
  "parseCompactTime ''20060102 150405'' ''20240601 010000'' = Inr 1717203600000000000"
  by (simp_all add: parseCompactTime_def isDigit_def atoi_def daysIn_def isLeap_def
      daysSinceEpoch_def time_Unix_def Let_def upt_rec)


theorem GetBestImage_newest_witness:
  "GetBestImage insertionSort parseCompactTime
     [\<lparr>img_Id = ''ami-1'', img_Name = ''kip-itzo-1-20240101-010000''\<rparr>,
      \<lparr>img_Id = ''ami-2'', img_Name = ''kip-itzo-2-20230101-010000''\<rparr>,
      \<lparr>img_Id = ''ami-3'', img_Name = ''kip-itzo-2-20240601-010000''\<rparr>]
     (BootImageTags_zero\<lparr>Product := ''itzo''\<rparr>)
   = Inr ''ami-3''"
proof -
  let ?i1 = "\<lparr>img_Id = ''ami-1'', img_Name = ''kip-itzo-1-20240101-010000''\<rparr>"
  let ?i2 = "\<lparr>img_Id = ''ami-2'', img_Name = ''kip-itzo-2-20230101-010000''\<rparr>"
  let ?i3 = "\<lparr>img_Id = ''ami-3'', img_Name = ''kip-itzo-2-20240601-010000''\<rparr>"
  let ?tags = "BootImageTags_zero\<lparr>Product := ''itzo''\<rparr>"
  have f: "FilterImages [?i1, ?i2, ?i3] ?tags = [?i1, ?i2, ?i3]"
    by code_simp
  have k: "imageKey parseCompactTime ?i1 = (1, 1704070800000000000)"
    "imageKey parseCompactTime ?i2 = (2, 1672534800000000000)"
    "imageKey parseCompactTime ?i3 = (2, 1717203600000000000)"
    by (simp_all add: imageKey_def image_names_parsed versions_parsed
        BootImageTags_Timestamp_def times_parsed)
  note inst = GetBestImage_newest
    [where sort_Slice = insertionSort and time_Parse = parseCompactTime
       and images = "[?i1, ?i2, ?i3]" and tags = ?tags]
  have ne: "FilterImages [?i1, ?i2, ?i3] ?tags \<noteq> []" unfolding f by simp
  note c3 = inst [OF insertionSort_imageLess, THEN conjunct2, THEN conjunct2, THEN conjunct1,
      rule_format, OF ne]
  from c3 [unfolded f] obtain best where
    bs: "best \<in> set [?i1, ?i2, ?i3]"
    and r: "GetBestImage insertionSort parseCompactTime [?i1, ?i2, ?i3] ?tags = Inr (img_Id best)"
    and mx: "\<forall>img \<in> set [?i1, ?i2, ?i3].
                fst (imageKey parseCompactTime img) < fst (imageKey parseCompactTime best)
                \<or> fst (imageKey parseCompactTime img) = fst (imageKey parseCompactTime best)
                  \<and> snd (imageKey parseCompactTime img) \<le> snd (imageKey parseCompactTime best)"
    by blast
  have "?i3 \<in> set [?i1, ?i2, ?i3]" by simp
  with mx have b3: "fst (imageKey parseCompactTime ?i3) < fst (imageKey parseCompactTime best)
        \<or> fst (imageKey parseCompactTime ?i3) = fst (imageKey parseCompactTime best)
          \<and> snd (imageKey parseCompactTime ?i3) \<le> snd (imageKey parseCompactTime best)"
    by blast
  from bs have "best = ?i1 \<or> best = ?i2 \<or> best = ?i3" by simp
  then have "best = ?i3"
  proof (elim disjE)
    assume "best = ?i1"
    with b3 show ?thesis by (simp add: k)
  next
    assume "best = ?i2"
    with b3 show ?thesis by (simp add: k)
  qed
  with r show ?thesis by simp
qed

lemma BootImageTags_zero_fields:
  "Company BootImageTags_zero = []" "Product BootImageTags_zero = []"
  "Version BootImageTags_zero = []" "Date BootImageTags_zero = []"
  "Time BootImageTags_zero = []"
  by (simp_all add: BootImageTags_zero_def)

text \<open>
  The claim as the specification states it, with the version 0 when its parse fails,
  fails for a version that is out of range: \<open>ParseUint\<close> returns \<open>2^32 - 1\<close> with its
  error, the code sorts the image last and returns it, and the order of the
  specification returns the image of version 5.
\<close>

theorem GetBestImage_version_counterexample:
  "GetBestImage insertionSort parseCompactTime
     [\<lparr>img_Id = ''ami-big'', img_Name = ''kip-itzo-4294967296-20240101-010000''\<rparr>,
      \<lparr>img_Id = ''ami-5'', img_Name = ''kip-itzo-5-20240101-010000''\<rparr>]
     (BootImageTags_zero\<lparr>Product := ''itzo''\<rparr>)
   = Inr ''ami-big''
   \<and> spec_GetBestImage parseCompactTime
     [\<lparr>img_Id = ''ami-big'', img_Name = ''kip-itzo-4294967296-20240101-010000''\<rparr>,
      \<lparr>img_Id = ''ami-5'', img_Name = ''kip-itzo-5-20240101-010000''\<rparr>]
     (BootImageTags_zero\<lparr>Product := ''itzo''\<rparr>)
   = Inr ''ami-5''
   \<and> strconv_ParseUint ''4294967296'' 10 32 = (4294967295, Some ErrRange)"
  by (simp add: GetBestImage_def SortImages_def insertionSort_def imageLess_def
      spec_GetBestImage_def spec_imageKey_def spec_version_def
      FilterImages_filter BootImageTags_Matches_iff image_names_parsed versions_parsed
      BootImageTags_Timestamp_def times_parsed Before_def Let_def BootImageTags_zero_fields
      less_eq_prod_def)

section \<open>Properties of the deployment of pod volumes\<close>

lemma configMapItems_empty_object:
  "cm_Data cm = [] \<Longrightarrow> cm_BinaryData cm = [] \<Longrightarrow>
   configMapItems cmVol cm dm True its acc = Inr acc"
  by (induction its) (simp_all add: configMapData_def)

lemma getConfigMapFiles_empty_object:
  "cmv_Optional cmVol = Some True \<Longrightarrow>
   getConfigMapFiles cmVol
     \<lparr>cm_Namespace = ns, cm_Name = n, cm_Data = [], cm_BinaryData = []\<rparr> = Inr []"
  by (simp add: getConfigMapFiles_def configMapItems_empty_object)

lemma secretItems_empty_object:
  "sec_Data sec = [] \<Longrightarrow> secretItems secVol sec dm True its acc = Inr acc"
  by (induction its) simp_all

lemma getSecretFiles_empty_object:
  "sv_Optional secVol = Some True \<Longrightarrow>
   getSecretFiles secVol \<lparr>sec_Namespace = ns, sec_Name = n, sec_Data = []\<rparr> = Inr []"
  by (simp add: getSecretFiles_def secretItems_empty_object)

lemma deployVolumes_append:
  "deployVolumes enc Deploy rm pod (pre @ rest) calls =
     (case deployVolumes enc Deploy rm pod pre calls of
        (calls', None) \<Rightarrow> deployVolumes enc Deploy rm pod rest calls'
      | (calls', Some err) \<Rightarrow> (calls', Some err))"
  by (induction pre arbitrary: calls)
    (auto split: option.splits sum.splits prod.splits)

lemma fetchConfigMap_cases:
  "GetConfigMap rm (cmv_Name cmVol) (pod_Namespace pod) = Inl err \<Longrightarrow>
   fetchConfigMap rm pod cmVol =
     (if err = NotFound \<and> cmv_Optional cmVol = Some True
      then Inr \<lparr>cm_Namespace = pod_Namespace pod, cm_Name = cmv_Name cmVol,
                 cm_Data = [], cm_BinaryData = []\<rparr>
      else Inl (WrapError err
             (''Couldn't get configMap '' @ pod_Namespace pod @ ''/'' @ cmv_Name cmVol)))"
  by (cases "cmv_Optional cmVol") (auto simp: fetchConfigMap_def errors_IsNotFound_def)

lemma fetchSecret_cases:
  "GetSecret rm (sv_SecretName secVol) (pod_Namespace pod) = Inl err \<Longrightarrow>
   fetchSecret rm pod secVol =
     (if err = NotFound \<and> sv_Optional secVol = Some True
      then Inr \<lparr>sec_Namespace = pod_Namespace pod, sec_Name = sv_SecretName secVol,
                 sec_Data = []\<rparr>
      else Inl (WrapError err
             (''Couldn't get secret '' @ pod_Namespace pod @ ''/'' @ sv_SecretName secVol)))"
  by (cases "sv_Optional secVol") (auto simp: fetchSecret_def errors_IsNotFound_def)

lemma deployVolumes_configMap_fetch:
  assumes "vol_ConfigMap vol = Some cmVol"
    and "GetConfigMap rm (cmv_Name cmVol) (pod_Namespace pod) = Inl err"
  shows "deployVolumes enc Deploy rm pod (vol # post) calls =
     (if err = NotFound \<and> cmv_Optional cmVol = Some True
      then (case deployPackageFiles enc Deploy pod vol [] calls of
              (calls', Some e) \<Rightarrow> (calls', Some e)
            | (calls', None) \<Rightarrow> deployVolumes enc Deploy rm pod post calls')
      else (calls, Some (WrapError err
              (''Couldn't get configMap '' @ pod_Namespace pod @ ''/'' @ cmv_Name cmVol))))"
  using assms
  by (simp add: fetchConfigMap_cases getConfigMapFiles_empty_object)

lemma deployVolumes_secret_fetch:
  assumes "vol_ConfigMap vol = None" "vol_Secret vol = Some secVol"
    and "GetSecret rm (sv_SecretName secVol) (pod_Namespace pod) = Inl err"
  shows "deployVolumes enc Deploy rm pod (vol # post) calls =
     (if err = NotFound \<and> sv_Optional secVol = Some True
      then (case deployPackageFiles enc Deploy pod vol [] calls of
              (calls', Some e) \<Rightarrow> (calls', Some e)
            | (calls', None) \<Rightarrow> deployVolumes enc Deploy rm pod post calls')
      else (calls, Some (WrapError err
              (''Couldn't get secret '' @ pod_Namespace pod @ ''/'' @ sv_SecretName secVol))))"
  using assms
  by (simp add: fetchSecret_cases getSecretFiles_empty_object)

text \<open>
  C8. Let the volumes before a configmap or secret volume of the pod be deployed without
  error, with the calls \<open>calls\<close> of the client, and let the fetch of the object of this
  volume from the resource manager fail. When the error is NotFound and the source is
  marked optional, the object is replaced by the empty object of the same name and the
  pod's namespace, of which the files are none, the package of no files is deployed for
  the volume and the volumes after it are deployed. In every other case
  \<open>deployPodVolumes\<close> returns the fetch error, wrapped, and the client has been called
  for the volumes before this one only.
\<close>

theorem deployPodVolumes_fetch_failure:
  assumes "pod_Volumes pod = pre @ vol # post"
    and "deployVolumes enc Deploy rm pod pre [] = (calls, None)"
  shows "(vol_ConfigMap vol = Some cmVol
          \<and> GetConfigMap rm (cmv_Name cmVol) (pod_Namespace pod) = Inl err \<longrightarrow>
          (err = NotFound \<and> cmv_Optional cmVol = Some True \<longrightarrow>
             fetchConfigMap rm pod cmVol
               = Inr \<lparr>cm_Namespace = pod_Namespace pod, cm_Name = cmv_Name cmVol,
                       cm_Data = [], cm_BinaryData = []\<rparr>
           \<and> getConfigMapFiles cmVol
                 \<lparr>cm_Namespace = pod_Namespace pod, cm_Name = cmv_Name cmVol,
                  cm_Data = [], cm_BinaryData = []\<rparr> = Inr []
           \<and> deployPodVolumes enc Deploy rm pod
               = (case deployPackageFiles enc Deploy pod vol [] calls of
                    (calls', Some e) \<Rightarrow> (calls', Some e)
                  | (calls', None) \<Rightarrow> deployVolumes enc Deploy rm pod post calls'))
        \<and> (\<not> (err = NotFound \<and> cmv_Optional cmVol = Some True) \<longrightarrow>
             deployPodVolumes enc Deploy rm pod
               = (calls, Some (WrapError err
                    (''Couldn't get configMap '' @ pod_Namespace pod @ ''/''
                       @ cmv_Name cmVol)))))
       \<and> (vol_ConfigMap vol = None \<and> vol_Secret vol = Some secVol
          \<and> GetSecret rm (sv_SecretName secVol) (pod_Namespace pod) = Inl err \<longrightarrow>
          (err = NotFound \<and> sv_Optional secVol = Some True \<longrightarrow>
             fetchSecret rm pod secVol
               = Inr \<lparr>sec_Namespace = pod_Namespace pod, sec_Name = sv_SecretName secVol,
                       sec_Data = []\<rparr>
           \<and> getSecretFiles secVol
                 \<lparr>sec_Namespace = pod_Namespace pod, sec_Name = sv_SecretName secVol,
                  sec_Data = []\<rparr> = Inr []
           \<and> deployPodVolumes enc Deploy rm pod
               = (case deployPackageFiles enc Deploy pod vol [] calls of
                    (calls', Some e) \<Rightarrow> (calls', Some e)
                  | (calls', None) \<Rightarrow> deployVolumes enc Deploy rm pod post calls'))
        \<and> (\<not> (err = NotFound \<and> sv_Optional secVol = Some True) \<longrightarrow>
             deployPodVolumes enc Deploy rm pod
               = (calls, Some (WrapError err
                    (''Couldn't get secret '' @ pod_Namespace pod @ ''/''
                       @ sv_SecretName secVol)))))"
proof -
  have run: "deployPodVolumes enc Deploy rm pod = deployVolumes enc Deploy rm pod (vol # post) calls"
    using assms by (simp add: deployPodVolumes_def deployVolumes_append)
  show ?thesis
  proof (intro conjI impI; (elim conjE)?)
    assume cm: "vol_ConfigMap vol = Some cmVol"
      "GetConfigMap rm (cmv_Name cmVol) (pod_Namespace pod) = Inl err"
    note step = deployVolumes_configMap_fetch [OF cm, of enc Deploy post calls]
    {
      assume o: "err = NotFound" "cmv_Optional cmVol = Some True"
      show "fetchConfigMap rm pod cmVol
               = Inr \<lparr>cm_Namespace = pod_Namespace pod, cm_Name = cmv_Name cmVol,
                       cm_Data = [], cm_BinaryData = []\<rparr>"
        using o by (simp add: fetchConfigMap_cases [OF cm(2)])
      show "getConfigMapFiles cmVol
                 \<lparr>cm_Namespace = pod_Namespace pod, cm_Name = cmv_Name cmVol,
                  cm_Data = [], cm_BinaryData = []\<rparr> = Inr []"
        using o(2) by (rule getConfigMapFiles_empty_object)
      show "deployPodVolumes enc Deploy rm pod
               = (case deployPackageFiles enc Deploy pod vol [] calls of
                    (calls', Some e) \<Rightarrow> (calls', Some e)
                  | (calls', None) \<Rightarrow> deployVolumes enc Deploy rm pod post calls')"
        unfolding run step using o by simp
    }
    show "deployPodVolumes enc Deploy rm pod
               = (calls, Some (WrapError err
                    (''Couldn't get configMap '' @ pod_Namespace pod @ ''/''
                       @ cmv_Name cmVol)))"
      if "\<not> (err = NotFound \<and> cmv_Optional cmVol = Some True)"
      unfolding run step using that by auto
  next
    assume sec: "vol_ConfigMap vol = None" "vol_Secret vol = Some secVol"
      "GetSecret rm (sv_SecretName secVol) (pod_Namespace pod) = Inl err"
    note step = deployVolumes_secret_fetch [OF sec, of enc Deploy post calls]
    {
      assume o: "err = NotFound" "sv_Optional secVol = Some True"
      show "fetchSecret rm pod secVol
               = Inr \<lparr>sec_Namespace = pod_Namespace pod, sec_Name = sv_SecretName secVol,
                       sec_Data = []\<rparr>"
        using o by (simp add: fetchSecret_cases [OF sec(3)])
      show "getSecretFiles secVol
                 \<lparr>sec_Namespace = pod_Namespace pod, sec_Name = sv_SecretName secVol,
                  sec_Data = []\<rparr> = Inr []"
        using o(2) by (rule getSecretFiles_empty_object)
      show "deployPodVolumes enc Deploy rm pod
               = (case deployPackageFiles enc Deploy pod vol [] calls of
                    (calls', Some e) \<Rightarrow> (calls', Some e)
                  | (calls', None) \<Rightarrow> deployVolumes enc Deploy rm pod post calls')"
        unfolding run step using o by simp
    }
    show "deployPodVolumes enc Deploy rm pod
               = (calls, Some (WrapError err
                    (''Couldn't get secret '' @ pod_Namespace pod @ ''/''
                       @ sv_SecretName secVol)))"
      if "\<not> (err = NotFound \<and> sv_Optional secVol = Some True)"
      unfolding run step using that by auto
  qed
qed


theorem deployPodVolumes_fetch_failure_witness:
  "deployPodVolumes (\<lambda>_. True) (\<lambda>_ _ _. None)
     \<lparr>GetConfigMap = \<lambda>_ _. Inl NotFound, GetSecret = \<lambda>_ _. Inl NotFound\<rparr>
     \<lparr>pod_Name = ''web'', pod_Namespace = ''default'',
      pod_Volumes =
        [\<lparr>vol_Name = ''config'',
          vol_ConfigMap = Some \<lparr>cmv_Name = ''cm'', cmv_Items = [], cmv_DefaultMode = None,
                                 cmv_Optional = Some True\<rparr>,
          vol_Secret = None\<rparr>,
         \<lparr>vol_Name = ''certs'', vol_ConfigMap = None,
          vol_Secret = Some \<lparr>sv_SecretName = ''tls'', sv_Items = [], sv_DefaultMode = None,
                              sv_Optional = None\<rparr>\<rparr>]\<rparr>
   = ([(''web'', ''config'', GzipTar [])],
      Some (WrapError NotFound ''Couldn't get secret default/tls''))"
proof -
  let ?rm = "\<lparr>GetConfigMap = \<lambda>_ _. Inl NotFound, GetSecret = \<lambda>_ _. Inl NotFound\<rparr>"
  let ?cmv = "\<lparr>cmv_Name = ''cm'', cmv_Items = [], cmv_DefaultMode = None,
                cmv_Optional = Some True\<rparr>"
  let ?sv = "\<lparr>sv_SecretName = ''tls'', sv_Items = [], sv_DefaultMode = None,
               sv_Optional = None\<rparr>"
  let ?v1 = "\<lparr>vol_Name = ''config'', vol_ConfigMap = Some ?cmv, vol_Secret = None\<rparr>"
  let ?v2 = "\<lparr>vol_Name = ''certs'', vol_ConfigMap = None, vol_Secret = Some ?sv\<rparr>"
  let ?pod = "\<lparr>pod_Name = ''web'', pod_Namespace = ''default'', pod_Volumes = [?v1, ?v2]\<rparr>"
  let ?enc = "\<lambda>_ :: tar_Header. True"
  let ?dep = "\<lambda>(_ :: string) (_ :: string) (_ :: buffer). None :: error option"
  have a1: "pod_Volumes ?pod = [] @ ?v1 # [?v2]" by simp
  have a2: "deployVolumes ?enc ?dep ?rm ?pod [] [] = ([], None)" by simp
  have h: "vol_ConfigMap ?v1 = Some ?cmv
      \<and> GetConfigMap ?rm (cmv_Name ?cmv) (pod_Namespace ?pod) = Inl NotFound" by simp
  have o: "NotFound = NotFound \<and> cmv_Optional ?cmv = Some True" by simp
  note inst = deployPodVolumes_fetch_failure [OF a1 a2, where cmVol = ?cmv and err = NotFound,
      THEN conjunct1, rule_format, OF h, THEN conjunct1, rule_format, OF o,
      THEN conjunct2, THEN conjunct2]
  have pkg: "deployPackageFiles ?enc ?dep ?pod ?v1 [] [] = ([(''web'', ''config'', GzipTar [])], None)"
    by (simp add: deployPackageFiles_def makeDeployPackage_def tar_NewWriter_def tar_Close_def)
  have rest: "deployVolumes ?enc ?dep ?rm ?pod [?v2] [(''web'', ''config'', GzipTar [])]
      = ([(''web'', ''config'', GzipTar [])],
         Some (WrapError NotFound ''Couldn't get secret default/tls''))"
    by (simp add: fetchSecret_def errors_IsNotFound_def)
  show ?thesis unfolding inst pkg using rest by simp
qed

section \<open>Properties of the cloud-init file\<close>

lemma Contents_marshal_error:
  "yaml_Marshal ((userData f)\<lparr>WriteFiles := WriteFiles (userData f) @ map snd (kipFiles f)\<rparr>)
     = Inl err \<Longrightarrow>
   Contents yaml_Marshal f = Inl err"
  by (simp add: Contents_def Let_def)

text \<open>
  C7. The merged config is the user's config with the kip files appended to its
  \<open>write_files\<close>, and \<open>y\<close> is the YAML that \<open>yaml.Marshal\<close> makes of it. The output
  of \<open>Contents\<close> is the header \<open>#cloud-config\<close> with its newline followed by \<open>y\<close>.
  \<open>Contents\<close> returns an error, and no bytes, exactly when this output is longer than
  16000 bytes; otherwise it returns the output.
\<close>

theorem Contents_header_and_bound:
  assumes "yaml_Marshal
             ((userData f)\<lparr>WriteFiles := WriteFiles (userData f) @ map snd (kipFiles f)\<rparr>)
           = Inr y"
  shows "(isl (Contents yaml_Marshal f) \<longleftrightarrow> length (''#cloud-config\<newline>'' @ y) > 16000)
       \<and> (length (''#cloud-config\<newline>'' @ y) > 16000 \<longrightarrow>
            Contents yaml_Marshal f = Inl CloudInitTooLong)
       \<and> (\<not> length (''#cloud-config\<newline>'' @ y) > 16000 \<longrightarrow>
            Contents yaml_Marshal f = Inr (''#cloud-config\<newline>'' @ y))"
  using assms
  by (simp add: Contents_def cloudInitHeader_def maxCloudInitSize_def Let_def)

theorem Contents_header_and_bound_witness:
  "Contents (\<lambda>c. Inr (concat (map wf_Content (WriteFiles c))))
     \<lparr>userData = \<lparr>WriteFiles = [], cc_other = ()\<rparr>,
      kipFiles = [(''/tmp/itzo/itzo_version'',
                   \<lparr>wf_Content = ''v1.2.3'', wf_Path = ''/tmp/itzo/itzo_version'',
                    wf_Owner = ''root'', wf_RawFilePermissions = ''0444''\<rparr>)]\<rparr>
   = Inr ''#cloud-config\<newline>v1.2.3''
   \<and> Contents (\<lambda>c. Inr (replicate 15986 (CHR ''a'')))
       \<lparr>userData = \<lparr>WriteFiles = [], cc_other = ()\<rparr>, kipFiles = []\<rparr>
     = Inr (''#cloud-config\<newline>'' @ replicate 15986 (CHR ''a''))
   \<and> Contents (\<lambda>c. Inr (replicate 15987 (CHR ''a'')))
       \<lparr>userData = \<lparr>WriteFiles = [], cc_other = ()\<rparr>, kipFiles = []\<rparr>
     = Inl CloudInitTooLong"
proof -
  let ?f = "\<lparr>userData = \<lparr>WriteFiles = [], cc_other = ()\<rparr>,
      kipFiles = [(''/tmp/itzo/itzo_version'',
                   \<lparr>wf_Content = ''v1.2.3'', wf_Path = ''/tmp/itzo/itzo_version'',
                    wf_Owner = ''root'', wf_RawFilePermissions = ''0444''\<rparr>)]\<rparr>"
  let ?m = "\<lambda>c :: unit CloudConfig. Inr (concat (map wf_Content (WriteFiles c))) :: error + bytes"
  let ?g = "\<lparr>userData = \<lparr>WriteFiles = [], cc_other = ()\<rparr>, kipFiles = []\<rparr>"
  let ?n = "\<lambda>c :: unit CloudConfig. Inr (replicate 15986 (CHR ''a'')) :: error + bytes"
  let ?o = "\<lambda>c :: unit CloudConfig. Inr (replicate 15987 (CHR ''a'')) :: error + bytes"
  have h1: "?m ((userData ?f)\<lparr>WriteFiles := WriteFiles (userData ?f) @ map snd (kipFiles ?f)\<rparr>)
      = Inr ''v1.2.3''" by simp
  have h2: "?n ((userData ?g)\<lparr>WriteFiles := WriteFiles (userData ?g) @ map snd (kipFiles ?g)\<rparr>)
      = Inr (replicate 15986 (CHR ''a''))" by simp
  have h3: "?o ((userData ?g)\<lparr>WriteFiles := WriteFiles (userData ?g) @ map snd (kipFiles ?g)\<rparr>)
      = Inr (replicate 15987 (CHR ''a''))" by simp
  have "Contents ?m ?f = Inr ''#cloud-config\<newline>v1.2.3''"
    using Contents_header_and_bound [of ?m ?f "''v1.2.3''", OF h1] by simp
  moreover have "Contents ?n ?g = Inr (''#cloud-config\<newline>'' @ replicate 15986 (CHR ''a''))"
    using Contents_header_and_bound [of ?n ?g "replicate 15986 (CHR ''a'')", OF h2] by simp
  moreover have "Contents ?o ?g = Inl CloudInitTooLong"
    using Contents_header_and_bound [of ?o ?g "replicate 15987 (CHR ''a'')", OF h3] by simp
  ultimately show ?thesis by blast
qed

section \<open>Properties of resolv.conf\<close>

lemma writeServers_eq:
  "writeServers podName srvs buf =
     Inr (buf @ concat (map (\<lambda>ip. ''nameserver '' @ ip @ ''\<newline>'') srvs))"
  by (induction srvs arbitrary: buf) (simp_all add: buf_WriteString_def)

lemma createResolvconf_eq:
  "createResolvconf podName dnsconf =
     Inr (concat (map (\<lambda>ip. ''nameserver '' @ ip @ ''\<newline>'') (Servers dnsconf))
          @ (if Searches dnsconf \<noteq> []
             then ''search '' @ strings_Join (Searches dnsconf) '' '' @ ''\<newline>'' else [])
          @ (if Options dnsconf \<noteq> []
             then ''options '' @ strings_Join (Options dnsconf) '' '' @ ''\<newline>'' else []))"
  by (simp add: createResolvconf_def writeServers_eq buf_WriteString_def)

text \<open>
  C5. \<open>createResolvconf\<close> returns one line \<open>nameserver <ip>\<close> per nameserver in order,
  then the line \<open>search\<close> with the searches joined by spaces iff there is a search, then
  the line \<open>options\<close> with the options joined by spaces iff there is an option. For the
  servers 1.1.1.1 and 8.8.8.8, the search svc.cluster.local and the option ndots:5 the
  bytes are those of the scenario. \<open>deployResolvconf\<close> hands to the client, under the
  volume name \<open>resolvconf\<close>, the package of the single file \<open>/etc/resolv.conf\<close> with
  these bytes and the mode 0644.
\<close>

theorem createResolvconf_lines:
  "createResolvconf podName dnsconf =
     Inr (concat (map (\<lambda>ip. ''nameserver '' @ ip @ ''\<newline>'') (Servers dnsconf))
          @ (if Searches dnsconf \<noteq> []
             then ''search '' @ strings_Join (Searches dnsconf) '' '' @ ''\<newline>'' else [])
          @ (if Options dnsconf \<noteq> []
             then ''options '' @ strings_Join (Options dnsconf) '' '' @ ''\<newline>'' else []))
   \<and> createResolvconf podName
         \<lparr>Servers = [''1.1.1.1'', ''8.8.8.8''], Searches = [''svc.cluster.local''],
          Options = [''ndots:5'']\<rparr>
       = Inr ''nameserver 1.1.1.1\<newline>nameserver 8.8.8.8\<newline>search svc.cluster.local\<newline>options ndots:5\<newline>''
   \<and> (dnsConfigurer = Some GetPodDNS \<and> milpaToK8sPod pod = Inr k8spod
        \<and> GetPodDNS k8spod = Inr dnsconf \<and> createResolvconf (pod_Name pod) dnsconf = Inr bs
        \<and> makeDeployPackage encodable [(''/etc/resolv.conf'', \<lparr>data = bs, mode = 420\<rparr>)]
            = Inr payload
      \<longrightarrow> fst (deployResolvconf encodable Deploy milpaToK8sPod dnsConfigurer pod calls)
            = calls @ [(pod_Name pod, ''resolvconf'', payload)])"
proof (intro conjI impI)
  show "createResolvconf podName dnsconf =
     Inr (concat (map (\<lambda>ip. ''nameserver '' @ ip @ ''\<newline>'') (Servers dnsconf))
          @ (if Searches dnsconf \<noteq> []
             then ''search '' @ strings_Join (Searches dnsconf) '' '' @ ''\<newline>'' else [])
          @ (if Options dnsconf \<noteq> []
             then ''options '' @ strings_Join (Options dnsconf) '' '' @ ''\<newline>'' else []))"
    by (rule createResolvconf_eq)
  show "createResolvconf podName
         \<lparr>Servers = [''1.1.1.1'', ''8.8.8.8''], Searches = [''svc.cluster.local''],
          Options = [''ndots:5'']\<rparr>
       = Inr ''nameserver 1.1.1.1\<newline>nameserver 8.8.8.8\<newline>search svc.cluster.local\<newline>options ndots:5\<newline>''"
    by (simp add: createResolvconf_eq)
  assume a: "dnsConfigurer = Some GetPodDNS \<and> milpaToK8sPod pod = Inr k8spod
        \<and> GetPodDNS k8spod = Inr dnsconf \<and> createResolvconf (pod_Name pod) dnsconf = Inr bs
        \<and> makeDeployPackage encodable [(''/etc/resolv.conf'', \<lparr>data = bs, mode = 420\<rparr>)]
            = Inr payload"
  then show "fst (deployResolvconf encodable Deploy milpaToK8sPod dnsConfigurer pod calls)
            = calls @ [(pod_Name pod, ''resolvconf'', payload)]"
    unfolding deployResolvconf_def resolvconfVolumeName_def
    by (simp split: option.split)
qed

lemma resolvconf_package_example: "makeDeployPackage (\<lambda>_. True)
       [(''/etc/resolv.conf'', \<lparr>data = ''nameserver 1.1.1.1\<newline>'', mode = 420\<rparr>)]
     = Inr (GzipTar [(\<lparr>hdr_Name = ''ROOTFS/etc/resolv.conf'', hdr_Mode = 420, hdr_Size = 19,
            hdr_Typeflag = 48, hdr_Uid = 0, hdr_Gid = 0\<rparr>, ''nameserver 1.1.1.1\<newline>'')])"
  by (simp add: makeDeployPackage_def packageHeader_def tar_NewWriter_def tar_WriteHeader_def
      tar_Write_def tar_Close_def tar_TypeReg_def filepath_Join_def filepath_Clean_def)

theorem createResolvconf_lines_witness:
  "fst (deployResolvconf (\<lambda>_. True) (\<lambda>_ _ _. None) Inr
          (Some (\<lambda>_. Inr \<lparr>Servers = [''1.1.1.1''], Searches = [], Options = []\<rparr>))
          \<lparr>pod_Name = ''web'', pod_Namespace = ''default'', pod_Volumes = []\<rparr> [])
   = [(''web'', ''resolvconf'',
       GzipTar [(\<lparr>hdr_Name = ''ROOTFS/etc/resolv.conf'', hdr_Mode = 420, hdr_Size = 19,
            hdr_Typeflag = 48, hdr_Uid = 0, hdr_Gid = 0\<rparr>, ''nameserver 1.1.1.1\<newline>'')])]"
  using createResolvconf_lines [where dnsConfigurer = "Some (\<lambda>_. Inr \<lparr>Servers = [''1.1.1.1''], Searches = [], Options = []\<rparr>)"
     and GetPodDNS = "\<lambda>_. Inr \<lparr>Servers = [''1.1.1.1''], Searches = [], Options = []\<rparr>"
     and milpaToK8sPod = Inr and pod = "\<lparr>pod_Name = ''web'', pod_Namespace = ''default'', pod_Volumes = []\<rparr>"
     and k8spod = "\<lparr>pod_Name = ''web'', pod_Namespace = ''default'', pod_Volumes = []\<rparr>"
     and dnsconf = "\<lparr>Servers = [''1.1.1.1''], Searches = [], Options = []\<rparr>"
     and bs = "''nameserver 1.1.1.1\<newline>''" and encodable = "\<lambda>_. True" and Deploy = "\<lambda>_ _ _. None" and calls = "[]"
     and payload = "GzipTar [(\<lparr>hdr_Name = ''ROOTFS/etc/resolv.conf'', hdr_Mode = 420, hdr_Size = 19,
            hdr_Typeflag = 48, hdr_Uid = 0, hdr_Gid = 0\<rparr>, ''nameserver 1.1.1.1\<newline>'')]"]
    resolvconf_package_example
  by simp

text \<open>
  C9. For a DNS config with no nameserver, no search and no option \<open>createResolvconf\<close>
  succeeds and returns the empty content.
\<close>

theorem createResolvconf_empty:
  "createResolvconf podName \<lparr>Servers = [], Searches = [], Options = []\<rparr> = Inr []"
  by (simp add: createResolvconf_eq)

end
